theory Spec2Isabelle
  imports Main "HOL-Library.Char_ord" "HOL-Library.List_Lexorder" "HOL-Library.Monad_Syntax"
begin

section \<open>Python values, exceptions and dictionaries\<close>

text \<open>
  The football match tracker is a Python program in three layers: \<^verbatim>\<open>api_client.py\<close>
  (the remote provider and the fixture normalizer \<^verbatim>\<open>parse_fixture\<close>),
  \<^verbatim>\<open>database.py\<close> (the SQLite store) and \<^verbatim>\<open>service.py\<close> (the orchestration).
  This theory embeds the normalizer, the store operations and the sync loop.

  A raw fixture record is what \<^verbatim>\<open>response.json()\<close> returns: nested dictionaries, lists,
  strings, integers, booleans and \<^verbatim>\<open>None\<close>. The normalized record additionally holds a
  \<^verbatim>\<open>datetime\<close>. A dictionary is an association list read with \<open>map_of\<close>.
  Integers are Python's unbounded integers; JSON floats do not occur in the fields
  the program reads (identifiers, goals, timestamps) and are not modelled.
\<close>

record datetime =
  year :: nat
  month :: nat
  day :: nat
  hour :: nat
  minute :: nat
  second :: nat
  microsecond :: nat
  utcoffset :: "int option"

datatype pyval =
    PNone
  | PBool bool
  | PInt int
  | PStr string
  | PList "pyval list"
  | PDict "(string \<times> pyval) list"
  | PDatetime datetime

type_synonym pydict = "(string \<times> pyval) list"

text \<open>
  Every exception the modelled code can raise. \<open>RequestError\<close> stands for the plain
  \<^verbatim>\<open>Exception\<close> of \<^verbatim>\<open>_make_request\<close>; \<open>InterfaceError\<close> and \<open>IntegrityError\<close>
  are the \<^verbatim>\<open>sqlite3\<close> driver's, and \<open>OverflowError\<close> is what the driver raises for an
  integer parameter that SQLite cannot hold.
\<close>

datatype error =
    AttributeError
  | ValueError
  | TypeError
  | InterfaceError
  | IntegrityError
  | OverflowError
  | RequestError

type_synonym 'a result = "error + 'a"

definition bind_res :: "'a result \<Rightarrow> ('a \<Rightarrow> 'b result) \<Rightarrow> 'b result" where
  "bind_res m f = (case m of Inl e \<Rightarrow> Inl e | Inr x \<Rightarrow> f x)"

text \<open>\<^verbatim>\<open>obj.get(key, dflt)\<close>: only a dictionary has the method.\<close>

definition py_get :: "pyval \<Rightarrow> string \<Rightarrow> pyval \<Rightarrow> pyval result" where
  "py_get obj key dflt =
     (case obj of
        PDict kvs \<Rightarrow> Inr (case map_of kvs key of Some v \<Rightarrow> v | None \<Rightarrow> dflt)
      | _ \<Rightarrow> Inl AttributeError)"

text \<open>\<^verbatim>\<open>obj.get(k1, {}).get(k2, dflt)\<close>\<close>

definition py_get2 :: "pyval \<Rightarrow> string \<Rightarrow> string \<Rightarrow> pyval \<Rightarrow> pyval result" where
  "py_get2 obj k1 k2 dflt = bind_res (py_get obj k1 (PDict [])) (\<lambda>inner. py_get inner k2 dflt)"

text \<open>\<^verbatim>\<open>d.get(key)\<close> on a value known to be a dictionary: \<^verbatim>\<open>None\<close> when the key is absent.\<close>

definition dict_get :: "pydict \<Rightarrow> string \<Rightarrow> pyval" where
  "dict_get d key = (case map_of d key of Some v \<Rightarrow> v | None \<Rightarrow> PNone)"

text \<open>
  A dictionary display \<^verbatim>\<open>{k1: e1, k2: e2, ...}\<close> evaluates its entries in order; the first
  entry that raises ends the evaluation.
\<close>

fun dict_literal :: "(string \<times> pyval result) list \<Rightarrow> pydict result" where
  "dict_literal [] = Inr []"
| "dict_literal ((k, Inl e) # rest) = Inl e"
| "dict_literal ((k, Inr v) # rest) =
     (case dict_literal rest of Inl e \<Rightarrow> Inl e | Inr kvs \<Rightarrow> Inr ((k, v) # kvs))"

text \<open>
  \<^verbatim>\<open>x.replace('Z', '+00:00')\<close>: on a string every \<^verbatim>\<open>Z\<close> is replaced; a \<^verbatim>\<open>datetime\<close> has a
  \<^verbatim>\<open>replace\<close> method that rejects string arguments; no other value has the method.
\<close>

definition replace_Z :: "string \<Rightarrow> string" where
  "replace_Z s = concat (map (\<lambda>c. if c = CHR ''Z'' then ''+00:00'' else [c]) s)"

definition str_replace_Z :: "pyval \<Rightarrow> string result" where
  "str_replace_Z x =
     (case x of
        PStr s \<Rightarrow> Inr (replace_Z s)
      | PDatetime _ \<Rightarrow> Inl TypeError
      | _ \<Rightarrow> Inl AttributeError)"

section \<open>The library's datetime functions\<close>

text \<open>
  \<^verbatim>\<open>datetime.fromisoformat\<close> is modelled after the grammar the library documents
  (Python 3.7 to 3.10, the versions that need the \<^verbatim>\<open>Z\<close> replacement of
  \<^verbatim>\<open>parse_fixture\<close>):
  \<^verbatim>\<open>YYYY-MM-DD[*HH[:MM[:SS[.fff[fff]]]][+HH:MM[:SS[.ffffff]]]]\<close>, where \<^verbatim>\<open>*\<close> is any
  single character, followed by the range checks of the \<^verbatim>\<open>datetime\<close> and
  \<^verbatim>\<open>timezone\<close> constructors. Every rejection is a \<^verbatim>\<open>ValueError\<close>. Later versions
  accept more strings; a string this model accepts is accepted by all of them.
\<close>

definition is_digit :: "char \<Rightarrow> bool" where
  "is_digit c = (c \<in> set ''0123456789'')"

definition digit_val :: "char \<Rightarrow> nat" where
  "digit_val c = length (takeWhile (\<lambda>d. d \<noteq> c) ''0123456789'')"

definition number :: "string \<Rightarrow> nat" where
  "number s = foldl (\<lambda>n c. 10 * n + digit_val c) 0 s"

definition parse_digits :: "nat \<Rightarrow> string \<Rightarrow> (nat \<times> string) option" where
  "parse_digits n s =
     (if n \<le> length s \<and> list_all is_digit (take n s)
      then Some (number (take n s), drop n s) else None)"

definition expect :: "char \<Rightarrow> string \<Rightarrow> string option" where
  "expect c s = (case s of [] \<Rightarrow> None | x # rest \<Rightarrow> if x = c then Some rest else None)"

definition parse_isoformat_date :: "string \<Rightarrow> ((nat \<times> nat \<times> nat) \<times> string) option" where
  "parse_isoformat_date s = do {
     (y, r1) \<leftarrow> parse_digits 4 s;
     r2 \<leftarrow> expect (CHR ''-'') r1;
     (m, r3) \<leftarrow> parse_digits 2 r2;
     r4 \<leftarrow> expect (CHR ''-'') r3;
     (d, r5) \<leftarrow> parse_digits 2 r4;
     Some ((y, m, d), r5)
   }"

text \<open>\<^verbatim>\<open>HH[:MM[:SS[.fff[fff]]]]\<close>, the whole string.\<close>

definition parse_hh_mm_ss_ff :: "string \<Rightarrow> (nat \<times> nat \<times> nat \<times> nat) option" where
  "parse_hh_mm_ss_ff s = do {
     (h, r1) \<leftarrow> parse_digits 2 s;
     if r1 = [] then Some (h, 0, 0, 0) else do {
       r2 \<leftarrow> expect (CHR '':'') r1;
       (m, r3) \<leftarrow> parse_digits 2 r2;
       if r3 = [] then Some (h, m, 0, 0) else do {
         r4 \<leftarrow> expect (CHR '':'') r3;
         (sec, r5) \<leftarrow> parse_digits 2 r4;
         if r5 = [] then Some (h, m, sec, 0) else do {
           r6 \<leftarrow> expect (CHR ''.'') r5;
           if length r6 = 3 \<and> list_all is_digit r6 then Some (h, m, sec, 1000 * number r6)
           else if length r6 = 6 \<and> list_all is_digit r6 then Some (h, m, sec, number r6)
           else None
         }
       }
     }
   }"

text \<open>
  The offset \<^verbatim>\<open>+HH:MM[:SS[.ffffff]]\<close> in microseconds; the empty string is a naive
  time (no offset).
\<close>

definition parse_tz :: "string \<Rightarrow> int option option" where
  "parse_tz s =
     (case s of
        [] \<Rightarrow> Some None
      | sign # body \<Rightarrow>
          if length body \<in> {5, 8, 15} then do {
            (h, m, sec, us) \<leftarrow> parse_hh_mm_ss_ff body;
            Some (Some ((if sign = CHR ''-'' then - 1 else 1) *
                        (int ((h * 3600 + m * 60 + sec) * 1000000 + us))))
          } else None)"

definition is_leap :: "nat \<Rightarrow> bool" where
  "is_leap y = (y mod 4 = 0 \<and> (y mod 100 \<noteq> 0 \<or> y mod 400 = 0))"

definition days_in_month :: "nat \<Rightarrow> nat \<Rightarrow> nat" where
  "days_in_month y m =
     (if m = 2 then (if is_leap y then 29 else 28)
      else if m \<in> {4, 6, 9, 11} then 30 else 31)"

text \<open>The range checks of the constructors.\<close>

definition valid_datetime :: "datetime \<Rightarrow> bool" where
  "valid_datetime d =
     (1 \<le> year d \<and> year d \<le> 9999 \<and> 1 \<le> month d \<and> month d \<le> 12 \<and>
      1 \<le> day d \<and> day d \<le> days_in_month (year d) (month d) \<and>
      hour d \<le> 23 \<and> minute d \<le> 59 \<and> second d \<le> 59 \<and> microsecond d \<le> 999999 \<and>
      (case utcoffset d of None \<Rightarrow> True
       | Some off \<Rightarrow> - 86400000000 < off \<and> off < 86400000000))"

definition parse_datetime :: "string \<Rightarrow> datetime option" where
  "parse_datetime s = do {
     ((y, m, d), rest) \<leftarrow> parse_isoformat_date s;
     (case rest of
        [] \<Rightarrow> Some \<lparr>year = y, month = m, day = d, hour = 0, minute = 0, second = 0,
                     microsecond = 0, utcoffset = None\<rparr>
      | sep # tstr \<Rightarrow> do {
          let is_sign = (\<lambda>c. c = CHR ''+'' \<or> c = CHR ''-'');
          (h, mi, sec, us) \<leftarrow> parse_hh_mm_ss_ff (takeWhile (\<lambda>c. \<not> is_sign c) tstr);
          off \<leftarrow> parse_tz (dropWhile (\<lambda>c. \<not> is_sign c) tstr);
          Some \<lparr>year = y, month = m, day = d, hour = h, minute = mi, second = sec,
                 microsecond = us, utcoffset = off\<rparr>
        })
   }"

definition fromisoformat :: "string \<Rightarrow> datetime result" where
  "fromisoformat s =
     (case parse_datetime s of
        None \<Rightarrow> Inl ValueError
      | Some d \<Rightarrow> if valid_datetime d then Inr d else Inl ValueError)"

text \<open>Zero-padded decimal fields, as \<^verbatim>\<open>%02d\<close>, \<^verbatim>\<open>%04d\<close> and \<^verbatim>\<open>%06d\<close> print them.\<close>

definition digit_char :: "nat \<Rightarrow> char" where
  "digit_char n = ''0123456789'' ! (n mod 10)"

definition pad2 :: "nat \<Rightarrow> string" where
  "pad2 n = [digit_char (n div 10), digit_char n]"

definition pad4 :: "nat \<Rightarrow> string" where
  "pad4 n = [digit_char (n div 1000), digit_char (n div 100), digit_char (n div 10), digit_char n]"

definition pad6 :: "nat \<Rightarrow> string" where
  "pad6 n = [digit_char (n div 100000), digit_char (n div 10000), digit_char (n div 1000),
             digit_char (n div 100), digit_char (n div 10), digit_char n]"

text \<open>
  \<^verbatim>\<open>fixture_date.strftime('%d/%m/%Y %H:%M')\<close>. The year is printed in four digits,
  as the library documents \<^verbatim>\<open>%Y\<close>.
\<close>

definition strftime :: "datetime \<Rightarrow> string" where
  "strftime d =
     pad2 (day d) @ ''/'' @ pad2 (month d) @ ''/'' @ pad4 (year d) @ '' '' @
     pad2 (hour d) @ '':'' @ pad2 (minute d)"

text \<open>
  \<^verbatim>\<open>d.isoformat(' ')\<close>, the text the \<^verbatim>\<open>sqlite3\<close> driver's default adapter stores for a
  \<^verbatim>\<open>datetime\<close> parameter.
\<close>

definition format_offset :: "int \<Rightarrow> string" where
  "format_offset off =
     (let a = nat \<bar>off\<bar>; secs = a div 1000000; us = a mod 1000000
      in (if off < 0 then ''-'' else ''+'') @
         pad2 (secs div 3600) @ '':'' @ pad2 (secs div 60 mod 60) @
         (if secs mod 60 \<noteq> 0 \<or> us \<noteq> 0 then '':'' @ pad2 (secs mod 60) else '''') @
         (if us \<noteq> 0 then ''.'' @ pad6 us else ''''))"

definition isoformat :: "datetime \<Rightarrow> string" where
  "isoformat d =
     pad4 (year d) @ ''-'' @ pad2 (month d) @ ''-'' @ pad2 (day d) @ '' '' @
     pad2 (hour d) @ '':'' @ pad2 (minute d) @ '':'' @ pad2 (second d) @
     (if microsecond d \<noteq> 0 then ''.'' @ pad6 (microsecond d) else '''') @
     (case utcoffset d of None \<Rightarrow> '''' | Some off \<Rightarrow> format_offset off)"

section \<open>The fixture normalizer (api\_client.py)\<close>

text \<open>The \<^verbatim>\<open>if\<close>/\<^verbatim>\<open>elif\<close> chain over the provider's short status code.\<close>

definition match_status :: "pyval \<Rightarrow> string" where
  "match_status status_short =
     (if status_short \<in> set [PStr ''FT'', PStr ''AET'', PStr ''PEN''] then ''finished''
      else if status_short \<in> set [PStr ''1H'', PStr ''2H'', PStr ''HT'', PStr ''ET'',
                                    PStr ''P'', PStr ''LIVE''] then ''in_progress''
      else if status_short \<in> set [PStr ''TBD'', PStr ''NS''] then ''scheduled''
      else ''postponed'')"

definition parse_fixture :: "pyval \<Rightarrow> pydict result" where
  "parse_fixture fixture_data =
     bind_res (py_get fixture_data ''fixture'' (PDict [])) (\<lambda>fixture.
     bind_res (py_get fixture_data ''teams'' (PDict [])) (\<lambda>teams.
     bind_res (py_get fixture_data ''goals'' (PDict [])) (\<lambda>goals.
     bind_res (py_get fixture_data ''league'' (PDict [])) (\<lambda>league.
     bind_res (py_get fixture_data ''score'' (PDict [])) (\<lambda>score.
     bind_res (py_get fixture ''date'' (PStr '''')) (\<lambda>date_field.
     bind_res (str_replace_Z date_field) (\<lambda>date_string.
     bind_res (fromisoformat date_string) (\<lambda>fixture_date.
     bind_res (py_get2 fixture ''status'' ''short'' (PStr '''')) (\<lambda>status_short.
     dict_literal [
       (''fixture_id'', py_get fixture ''id'' PNone),
       (''date'', Inr (PDatetime fixture_date)),
       (''date_formatted'', Inr (PStr (strftime fixture_date))),
       (''timestamp'', py_get fixture ''timestamp'' PNone),
       (''venue'', py_get2 fixture ''venue'' ''name'' (PStr ''N/A'')),
       (''venue_city'', py_get2 fixture ''venue'' ''city'' (PStr ''N/A'')),
       (''status'', Inr (PStr (match_status status_short))),
       (''status_long'', py_get2 fixture ''status'' ''long'' (PStr '''')),
       (''league_id'', py_get league ''id'' PNone),
       (''league_name'', py_get league ''name'' (PStr '''')),
       (''season'', py_get league ''season'' PNone),
       (''round'', py_get league ''round'' (PStr '''')),
       (''home_team_id'', py_get2 teams ''home'' ''id'' PNone),
       (''home_team_name'', py_get2 teams ''home'' ''name'' (PStr '''')),
       (''away_team_id'', py_get2 teams ''away'' ''id'' PNone),
       (''away_team_name'', py_get2 teams ''away'' ''name'' (PStr '''')),
       (''home_goals'', py_get goals ''home'' PNone),
       (''away_goals'', py_get goals ''away'' PNone),
       (''halftime_home'', py_get2 score ''halftime'' ''home'' PNone),
       (''halftime_away'', py_get2 score ''halftime'' ''away'' PNone),
       (''fulltime_home'', py_get2 score ''fulltime'' ''home'' PNone),
       (''fulltime_away'', py_get2 score ''fulltime'' ''away'' PNone)
     ])))))))))"

section \<open>SQL values and three-valued logic\<close>

text \<open>
  SQLite stores dynamically typed values. The store keeps the three storage classes the
  program writes: \<open>Null\<close>, integers and text. SQLite orders \<open>NULL\<close> before every number
  and every number before every text; text is compared byte by byte. A column's type
  affinity would convert a numeric string written to an \<^verbatim>\<open>INTEGER\<close> column (and an
  integer written to a \<^verbatim>\<open>TEXT\<close> column); the provider's records hold values of the
  declared types, and this conversion is not modelled.

  An SQLite integer is a signed 64-bit integer, and the driver refuses to bind a Python
  integer outside that range (\<open>sqlite_int\<close>) with \<^verbatim>\<open>OverflowError\<close>. The check is part
  of the operations whose integer argument the user types at the menu,
  \<^verbatim>\<open>mark_attended\<close> and \<^verbatim>\<open>unmark_attended\<close>. The identifiers, goals and timestamps of the
  provider's records, and the team ids taken from them, do not reach the bound and are
  taken without it.
\<close>

datatype sqlval = Null | IntV int | TextV string

definition sqlite_int :: "int \<Rightarrow> bool" where
  "sqlite_int i = (- 9223372036854775808 \<le> i \<and> i < 9223372036854775808)"

fun val_less :: "sqlval \<Rightarrow> sqlval \<Rightarrow> bool" where
  "val_less Null Null = False"
| "val_less Null b = True"
| "val_less (IntV a) Null = False"
| "val_less (IntV a) (IntV b) = (a < b)"
| "val_less (IntV a) (TextV b) = True"
| "val_less (TextV a) (TextV b) = (a < b)"
| "val_less (TextV a) b = False"

text \<open>
  A comparison with \<open>NULL\<close> is \<open>NULL\<close> (here \<open>None\<close>); \<^verbatim>\<open>WHERE\<close> and \<^verbatim>\<open>CASE WHEN\<close> take a
  row only when the condition is true.
\<close>

definition sql_eq :: "sqlval \<Rightarrow> sqlval \<Rightarrow> bool option" where
  "sql_eq a b = (if a = Null \<or> b = Null then None else Some (a = b))"

definition sql_lt :: "sqlval \<Rightarrow> sqlval \<Rightarrow> bool option" where
  "sql_lt a b = (if a = Null \<or> b = Null then None else Some (val_less a b))"

definition sql_gt :: "sqlval \<Rightarrow> sqlval \<Rightarrow> bool option" where
  "sql_gt a b = sql_lt b a"

fun sql_and :: "bool option \<Rightarrow> bool option \<Rightarrow> bool option" where
  "sql_and (Some False) b = Some False"
| "sql_and a (Some False) = Some False"
| "sql_and (Some True) (Some True) = Some True"
| "sql_and a b = None"

fun sql_or :: "bool option \<Rightarrow> bool option \<Rightarrow> bool option" where
  "sql_or (Some True) b = Some True"
| "sql_or a (Some True) = Some True"
| "sql_or (Some False) (Some False) = Some False"
| "sql_or a b = None"

definition is_true :: "bool option \<Rightarrow> bool" where
  "is_true c = (c = Some True)"

text \<open>
  \<^verbatim>\<open>SUM(...)\<close> over no rows is \<open>NULL\<close>; Python's \<^verbatim>\<open>result['wins'] or 0\<close> turns it into 0.
\<close>

definition sql_sum :: "int list \<Rightarrow> sqlval" where
  "sql_sum xs = (if xs = [] then Null else IntV (sum_list xs))"

definition or0 :: "sqlval \<Rightarrow> int" where
  "or0 v = (case v of IntV n \<Rightarrow> n | _ \<Rightarrow> 0)"

text \<open>
  How the \<^verbatim>\<open>sqlite3\<close> driver binds a Python value as a statement parameter. A
  \<^verbatim>\<open>datetime\<close> goes through the default adapter; a list or a dictionary is refused.
\<close>

definition adapt :: "pyval \<Rightarrow> sqlval result" where
  "adapt v =
     (case v of
        PNone \<Rightarrow> Inr Null
      | PBool b \<Rightarrow> Inr (IntV (if b then 1 else 0))
      | PInt i \<Rightarrow> Inr (IntV i)
      | PStr t \<Rightarrow> Inr (TextV t)
      | PDatetime d \<Rightarrow> Inr (TextV (isoformat d))
      | PList _ \<Rightarrow> Inl InterfaceError
      | PDict _ \<Rightarrow> Inl InterfaceError)"

fun sequence_res :: "'a result list \<Rightarrow> 'a list result" where
  "sequence_res [] = Inr []"
| "sequence_res (Inl e # rest) = Inl e"
| "sequence_res (Inr x # rest) =
     (case sequence_res rest of Inl e \<Rightarrow> Inl e | Inr xs \<Rightarrow> Inr (x # xs))"

section \<open>The persistent store (database.py)\<close>

text \<open>
  The tables of \<^verbatim>\<open>initialize_database\<close> that the program reads and writes. A row of
  \<^verbatim>\<open>fixtures\<close> has the \<^verbatim>\<open>INTEGER PRIMARY KEY\<close> \<open>fixture_id\<close> (always an integer) and
  twenty-one dynamically typed columns. A row of \<^verbatim>\<open>attended_matches\<close> has the
  \<^verbatim>\<open>AUTOINCREMENT\<close> key \<^verbatim>\<open>id\<close>, the \<^verbatim>\<open>UNIQUE NOT NULL\<close> \<^verbatim>\<open>fixture_id\<close>,
  \<^verbatim>\<open>attended_date\<close> and \<^verbatim>\<open>notes\<close>; its fields carry the alias \<^verbatim>\<open>am\<close> of the queries.
  \<open>am_seq\<close> is the largest \<^verbatim>\<open>id\<close> ever assigned (SQLite's \<^verbatim>\<open>sqlite_sequence\<close>).
  The tables \<^verbatim>\<open>teams\<close> and \<^verbatim>\<open>leagues\<close> are created and never used. Foreign keys are
  declared, and SQLite does not enforce them unless asked to, which the program never does.

  Every operation runs in a connection of its own (\<^verbatim>\<open>get_connection\<close>): it commits when
  the body returns and rolls back when the body raises. An operation therefore maps a
  store to a store and a result, and the store of a failed operation is the one it
  started from. \<^verbatim>\<open>CURRENT_TIMESTAMP\<close> is a parameter \<open>now\<close> of the operations that use it.
\<close>

record fixture_row =
  fixture_id :: int
  date :: sqlval
  timestamp :: sqlval
  venue :: sqlval
  venue_city :: sqlval
  status :: sqlval
  status_long :: sqlval
  league_id :: sqlval
  season :: sqlval
  round :: sqlval
  home_team_id :: sqlval
  home_team_name :: sqlval
  away_team_id :: sqlval
  away_team_name :: sqlval
  home_goals :: sqlval
  away_goals :: sqlval
  halftime_home :: sqlval
  halftime_away :: sqlval
  fulltime_home :: sqlval
  fulltime_away :: sqlval
  created_at :: sqlval
  updated_at :: sqlval

record attended_row =
  am_id :: int
  am_fixture_id :: int
  am_attended_date :: sqlval
  am_notes :: sqlval

record store =
  fixtures :: "fixture_row list"
  attended_matches :: "attended_row list"
  am_seq :: int

definition initialize_database :: store where
  "initialize_database = \<lparr>fixtures = [], attended_matches = [], am_seq = 0\<rparr>"

subsection \<open>insert\_fixture\<close>

definition fixture_columns :: "string list" where
  "fixture_columns =
     [''fixture_id'', ''date'', ''timestamp'', ''venue'', ''venue_city'', ''status'',
      ''status_long'', ''league_id'', ''season'', ''round'', ''home_team_id'',
      ''home_team_name'', ''away_team_id'', ''away_team_name'', ''home_goals'',
      ''away_goals'', ''halftime_home'', ''halftime_away'', ''fulltime_home'',
      ''fulltime_away'']"

text \<open>
  The key of a new row: the given integer, or, for \<open>NULL\<close>, one more than the largest
  key in the table (1 in an empty table). A text that is not a number is a datatype
  mismatch, which the driver raises as \<^verbatim>\<open>IntegrityError\<close>.
\<close>

definition new_rowid :: "fixture_row list \<Rightarrow> int" where
  "new_rowid rows = (case rows of [] \<Rightarrow> 1 | r # rs \<Rightarrow> fold max (map fixture_id rs) (fixture_id r) + 1)"

definition rowid_of :: "sqlval \<Rightarrow> fixture_row list \<Rightarrow> int result" where
  "rowid_of v rows =
     (case v of
        Null \<Rightarrow> Inr (new_rowid rows)
      | IntV i \<Rightarrow> Inr i
      | TextV t \<Rightarrow> Inl IntegrityError)"

text \<open>
  \<^verbatim>\<open>INSERT OR REPLACE INTO fixtures (<the twenty columns>, updated_at) VALUES (?, ..., ?,
  CURRENT_TIMESTAMP)\<close>. The parameters are \<^verbatim>\<open>fixture_data.get(column)\<close>. A \<open>NULL\<close> in
  a \<^verbatim>\<open>NOT NULL\<close> column without a default aborts the statement. Otherwise the row that
  holds the key is deleted and the new row is inserted; \<open>created_at\<close> is not among the
  statement's columns, so the new row takes the column's default \<^verbatim>\<open>CURRENT_TIMESTAMP\<close>.
\<close>

definition param :: "sqlval list \<Rightarrow> string \<Rightarrow> sqlval" where
  "param params c = (case map_of (zip fixture_columns params) c of Some v \<Rightarrow> v | None \<Rightarrow> Null)"

definition new_row :: "(string \<Rightarrow> sqlval) \<Rightarrow> int \<Rightarrow> sqlval \<Rightarrow> fixture_row" where
  "new_row p fid now =
     \<lparr>fixture_id = fid, date = p ''date'', timestamp = p ''timestamp'',
      venue = p ''venue'', venue_city = p ''venue_city'',
      status = p ''status'', status_long = p ''status_long'',
      league_id = p ''league_id'', season = p ''season'',
      round = p ''round'', home_team_id = p ''home_team_id'',
      home_team_name = p ''home_team_name'',
      away_team_id = p ''away_team_id'',
      away_team_name = p ''away_team_name'',
      home_goals = p ''home_goals'', away_goals = p ''away_goals'',
      halftime_home = p ''halftime_home'',
      halftime_away = p ''halftime_away'',
      fulltime_home = p ''fulltime_home'',
      fulltime_away = p ''fulltime_away'',
      created_at = now, updated_at = now\<rparr>"

definition insert_fixture :: "sqlval \<Rightarrow> pydict \<Rightarrow> store \<Rightarrow> store \<times> bool result" where
  "insert_fixture now fixture_data s =
     (case sequence_res (map (\<lambda>c. adapt (dict_get fixture_data c)) fixture_columns) of
        Inl e \<Rightarrow> (s, Inl e)
      | Inr params \<Rightarrow>
          if param params ''date'' = Null \<or> param params ''status'' = Null \<or>
             param params ''home_team_name'' = Null \<or> param params ''away_team_name'' = Null
          then (s, Inl IntegrityError)
          else
            (case rowid_of (param params ''fixture_id'') (fixtures s) of
               Inl e \<Rightarrow> (s, Inl e)
             | Inr fid \<Rightarrow>
                 (s\<lparr>fixtures :=
                      filter (\<lambda>r. fixture_id r \<noteq> fid) (fixtures s) @
                      [new_row (param params) fid now]\<rparr>,
                  Inr True)))"

subsection \<open>mark\_attended and unmark\_attended\<close>

text \<open>
  \<^verbatim>\<open>INSERT INTO attended_matches (fixture_id, notes) VALUES (?, ?)\<close>: binding a
  \<open>fixture_id\<close> outside the 64-bit range raises \<^verbatim>\<open>OverflowError\<close> before the statement
  runs; the statement fails with an \<^verbatim>\<open>IntegrityError\<close> when a row with the \<open>fixture_id\<close>
  exists (\<^verbatim>\<open>UNIQUE\<close>); otherwise it appends a row with the next \<^verbatim>\<open>id\<close> and the default
  \<^verbatim>\<open>attended_date\<close>.
\<close>

definition insert_attended :: "sqlval \<Rightarrow> int \<Rightarrow> string option \<Rightarrow> store \<Rightarrow> store result" where
  "insert_attended now fid notes_arg s =
     (if \<not> sqlite_int fid then Inl OverflowError
      else if list_ex (\<lambda>a. am_fixture_id a = fid) (attended_matches s) then Inl IntegrityError
      else Inr (s\<lparr>attended_matches :=
                    attended_matches s @
                    [\<lparr>am_id = am_seq s + 1, am_fixture_id = fid, am_attended_date = now,
                      am_notes = (case notes_arg of None \<Rightarrow> Null | Some t \<Rightarrow> TextV t)\<rparr>],
                  am_seq := am_seq s + 1\<rparr>))"

text \<open>
  \<^verbatim>\<open>mark_attended\<close> runs the statement inside \<^verbatim>\<open>try\<close>: it returns \<^verbatim>\<open>True\<close> when the
  statement succeeds, \<^verbatim>\<open>False\<close> when it raises \<^verbatim>\<open>IntegrityError\<close>, and lets any other
  exception through.
\<close>

definition mark_attended :: "sqlval \<Rightarrow> int \<Rightarrow> string option \<Rightarrow> store \<Rightarrow> store \<times> bool result" where
  "mark_attended now fid notes_arg s =
     (case insert_attended now fid notes_arg s of
        Inr s' \<Rightarrow> (s', Inr True)
      | Inl e \<Rightarrow> if e = IntegrityError then (s, Inr False) else (s, Inl e))"

text \<open>
  \<^verbatim>\<open>DELETE FROM attended_matches WHERE fixture_id = ?\<close>, then \<^verbatim>\<open>cursor.rowcount > 0\<close>;
  the parameter is bound as in the \<^verbatim>\<open>INSERT\<close>, and \<^verbatim>\<open>unmark_attended\<close> catches nothing.
\<close>

definition unmark_attended :: "int \<Rightarrow> store \<Rightarrow> store \<times> bool result" where
  "unmark_attended fid s =
     (if \<not> sqlite_int fid then (s, Inl OverflowError)
      else (s\<lparr>attended_matches := filter (\<lambda>a. am_fixture_id a \<noteq> fid) (attended_matches s)\<rparr>,
            Inr (0 < length (filter (\<lambda>a. am_fixture_id a = fid) (attended_matches s)))))"

subsection \<open>get\_fixtures\<close>

text \<open>
  Python's truth test of an optional integer and of an optional string: \<^verbatim>\<open>None\<close>, \<^verbatim>\<open>0\<close> and
  the empty string are false. \<open>truthy_int\<close> and \<open>truthy_str\<close> return the value that
  passes \<^verbatim>\<open>if team_id:\<close> and \<^verbatim>\<open>if status:\<close>.
\<close>

definition truthy_int :: "int option \<Rightarrow> int option" where
  "truthy_int x = (case x of None \<Rightarrow> None | Some n \<Rightarrow> if n = 0 then None else Some n)"

definition truthy_str :: "string option \<Rightarrow> string option" where
  "truthy_str x = (case x of None \<Rightarrow> None | Some t \<Rightarrow> if t = [] then None else Some t)"

text \<open>
  \<^verbatim>\<open>FROM fixtures f LEFT JOIN attended_matches am ON f.fixture_id = am.fixture_id\<close>: a
  fixture gives one row per matching mark, and one row with \<open>NULL\<close> mark columns when
  no mark matches.
\<close>

definition marks_of :: "store \<Rightarrow> fixture_row \<Rightarrow> attended_row list" where
  "marks_of s f = filter (\<lambda>am. fixture_id f = am_fixture_id am) (attended_matches s)"

definition join_rows :: "store \<Rightarrow> fixture_row \<Rightarrow> (fixture_row \<times> attended_row option) list" where
  "join_rows s f =
     (if marks_of s f = [] then [(f, None)] else map (\<lambda>am. (f, Some am)) (marks_of s f))"

definition left_join :: "store \<Rightarrow> (fixture_row \<times> attended_row option) list" where
  "left_join s = concat (map (join_rows s) (fixtures s))"

text \<open>\<^verbatim>\<open>(f.home_team_id = ? OR f.away_team_id = ?)\<close>\<close>

definition team_where :: "int \<Rightarrow> fixture_row \<Rightarrow> bool option" where
  "team_where team_id f =
     sql_or (sql_eq (home_team_id f) (IntV team_id)) (sql_eq (away_team_id f) (IntV team_id))"

text \<open>
  The \<^verbatim>\<open>WHERE\<close> clause as \<^verbatim>\<open>get_fixtures\<close> builds it: \<^verbatim>\<open>1=1\<close>, then one \<^verbatim>\<open>AND\<close> per
  filter whose argument is true.
\<close>

definition fixtures_where ::
  "int option \<Rightarrow> string option \<Rightarrow> bool \<Rightarrow> fixture_row \<times> attended_row option \<Rightarrow> bool option" where
  "fixtures_where team_id status_filter attended_only row =
     (let q0 = Some True;
          q1 = (case truthy_int team_id of
                  Some t \<Rightarrow> sql_and q0 (team_where t (fst row))
                | None \<Rightarrow> q0);
          q2 = (case truthy_str status_filter of
                  Some st \<Rightarrow> sql_and q1 (sql_eq (status (fst row)) (TextV st))
                | None \<Rightarrow> q1)
      in if attended_only then sql_and q2 (Some (snd row \<noteq> None)) else q2)"

text \<open>
  \<^verbatim>\<open>ORDER BY f.date DESC\<close>, as an insertion sort that keeps the join's order among rows
  with equal dates (SQL leaves the order of such rows open).
\<close>

fun insert_desc ::
  "fixture_row \<times> attended_row option \<Rightarrow> (fixture_row \<times> attended_row option) list \<Rightarrow>
   (fixture_row \<times> attended_row option) list" where
  "insert_desc x [] = [x]"
| "insert_desc x (y # ys) =
     (if val_less (date (fst x)) (date (fst y)) then y # insert_desc x ys else x # y # ys)"

definition order_by_date_desc ::
  "(fixture_row \<times> attended_row option) list \<Rightarrow> (fixture_row \<times> attended_row option) list" where
  "order_by_date_desc rows = foldr insert_desc rows []"

text \<open>
  A result row: the columns \<^verbatim>\<open>f.*\<close> (the field \<open>fixture\<close>), the computed column
  \<^verbatim>\<open>attended\<close>, and \<^verbatim>\<open>am.attended_date\<close> and \<^verbatim>\<open>am.notes\<close> (the field \<open>view_notes\<close>),
  which are \<open>NULL\<close> when the fixture has no attendance mark.
\<close>

record fixture_view =
  fixture :: fixture_row
  attended :: int
  attended_date :: sqlval
  view_notes :: sqlval

definition view_of :: "fixture_row \<times> attended_row option \<Rightarrow> fixture_view" where
  "view_of row =
     (case snd row of
        None \<Rightarrow> \<lparr>fixture = fst row, attended = 0, attended_date = Null, view_notes = Null\<rparr>
      | Some am \<Rightarrow> \<lparr>fixture = fst row, attended = 1, attended_date = am_attended_date am,
                     view_notes = am_notes am\<rparr>)"

definition get_fixtures :: "int option \<Rightarrow> string option \<Rightarrow> bool \<Rightarrow> store \<Rightarrow> fixture_view list" where
  "get_fixtures team_id status_filter attended_only s =
     map view_of
       (order_by_date_desc
          (filter (\<lambda>row. is_true (fixtures_where team_id status_filter attended_only row))
                  (left_join s)))"

subsection \<open>get\_statistics\<close>

text \<open>\<^verbatim>\<open>FROM attended_matches am JOIN fixtures f ON am.fixture_id = f.fixture_id\<close>\<close>

definition inner_join :: "store \<Rightarrow> (attended_row \<times> fixture_row) list" where
  "inner_join s =
     concat (map (\<lambda>am. map (\<lambda>f. (am, f))
                          (filter (\<lambda>f. am_fixture_id am = fixture_id f) (fixtures s)))
                 (attended_matches s))"

text \<open>The three \<^verbatim>\<open>CASE WHEN\<close> conditions of the second query.\<close>

definition win_case :: "int \<Rightarrow> fixture_row \<Rightarrow> bool option" where
  "win_case t f =
     sql_or (sql_and (sql_eq (home_team_id f) (IntV t)) (sql_gt (home_goals f) (away_goals f)))
            (sql_and (sql_eq (away_team_id f) (IntV t)) (sql_gt (away_goals f) (home_goals f)))"

definition draw_case :: "fixture_row \<Rightarrow> bool option" where
  "draw_case f =
     sql_and (sql_eq (home_goals f) (away_goals f)) (sql_eq (status f) (TextV ''finished''))"

definition loss_case :: "int \<Rightarrow> fixture_row \<Rightarrow> bool option" where
  "loss_case t f =
     sql_or (sql_and (sql_eq (home_team_id f) (IntV t)) (sql_lt (home_goals f) (away_goals f)))
            (sql_and (sql_eq (away_team_id f) (IntV t)) (sql_lt (away_goals f) (home_goals f)))"

text \<open>\<^verbatim>\<open>SUM(CASE WHEN c THEN 1 ELSE 0 END)\<close>\<close>

definition sum_case :: "(fixture_row \<Rightarrow> bool option) \<Rightarrow> (attended_row \<times> fixture_row) list \<Rightarrow> sqlval" where
  "sum_case c rows = sql_sum (map (\<lambda>row. if is_true (c (snd row)) then 1 else 0) rows)"

text \<open>
  The rows of the second query: \<^verbatim>\<open>WHERE (f.home_team_id = ? OR f.away_team_id = ?) AND
  f.status = 'finished'\<close>.
\<close>

definition finished_rows :: "int \<Rightarrow> store \<Rightarrow> (attended_row \<times> fixture_row) list" where
  "finished_rows t s =
     filter (\<lambda>row. is_true (sql_and (team_where t (snd row))
                                     (sql_eq (status (snd row)) (TextV ''finished''))))
            (inner_join s)"

text \<open>
  \<^verbatim>\<open>SELECT DISTINCT f.venue, f.venue_city, COUNT(*) as visits ... GROUP BY f.venue,
  f.venue_city ORDER BY visits DESC\<close>: one row per pair, the pairs with most visits first
  (SQL leaves the order of pairs with equal visits open).
\<close>

fun insert_visits :: "sqlval \<times> sqlval \<times> int \<Rightarrow> (sqlval \<times> sqlval \<times> int) list \<Rightarrow> (sqlval \<times> sqlval \<times> int) list" where
  "insert_visits x [] = [x]"
| "insert_visits x (y # ys) =
     (if snd (snd x) < snd (snd y) then y # insert_visits x ys else x # y # ys)"

definition stadium_visits :: "(attended_row \<times> fixture_row) list \<Rightarrow> (sqlval \<times> sqlval \<times> int) list" where
  "stadium_visits rows =
     (let keys = map (\<lambda>row. (venue (snd row), venue_city (snd row))) rows
      in foldr insert_visits
           (map (\<lambda>k. (fst k, snd k, int (count_list keys k))) (remdups keys)) [])"

text \<open>
  The returned dictionary: \<open>wins\<close>, \<open>draws\<close> and \<open>losses\<close> are \<open>None\<close> when the dictionary
  has no such key.
\<close>

record statistics =
  total_attended :: int
  wins :: "int option"
  draws :: "int option"
  losses :: "int option"
  stadiums :: "(sqlval \<times> sqlval \<times> int) list"

definition get_statistics :: "int option \<Rightarrow> store \<Rightarrow> statistics" where
  "get_statistics team_id s =
     (let team_rows =
            (case truthy_int team_id of
               Some t \<Rightarrow> filter (\<lambda>row. is_true (team_where t (snd row))) (inner_join s)
             | None \<Rightarrow> inner_join s)
      in \<lparr>total_attended = int (length team_rows),
          wins = (case truthy_int team_id of
                    Some t \<Rightarrow> Some (or0 (sum_case (win_case t) (finished_rows t s)))
                  | None \<Rightarrow> None),
          draws = (case truthy_int team_id of
                     Some t \<Rightarrow> Some (or0 (sum_case draw_case (finished_rows t s)))
                   | None \<Rightarrow> None),
          losses = (case truthy_int team_id of
                      Some t \<Rightarrow> Some (or0 (sum_case (loss_case t) (finished_rows t s)))
                    | None \<Rightarrow> None),
          stadiums = stadium_visits team_rows\<rparr>)"

section \<open>The sync orchestrator (service.py)\<close>

text \<open>
  The class attribute \<^verbatim>\<open>COMPETITIONS\<close>: key, provider id and display name (the letters
  outside ASCII as their UTF-8 bytes).
\<close>

definition COMPETITIONS :: "(string \<times> int \<times> string) list" where
  "COMPETITIONS =
     [(''brasileirao_a'', 71, ''Brasileir'' @ [CHR 0xC3, CHR 0xA3] @ ''o S'' @ [CHR 0xC3, CHR 0xA9] @ ''rie A''),
      (''brasileirao_b'', 72, ''Brasileir'' @ [CHR 0xC3, CHR 0xA3] @ ''o S'' @ [CHR 0xC3, CHR 0xA9] @ ''rie B''),
      (''copa_do_brasil'', 73, ''Copa do Brasil''),
      (''libertadores'', 13, ''Copa Libertadores''),
      (''sul_americana'', 11, ''Copa Sul-Americana'')]"

text \<open>
  The loop of \<^verbatim>\<open>sync_team_fixtures\<close>: normalize, upsert, count. \<open>clock i\<close> is
  \<^verbatim>\<open>CURRENT_TIMESTAMP\<close> at the \<open>i\<close>-th upsert. Every upsert commits on its own, so the
  store reached when an exception ends the loop is returned with the exception.
\<close>

fun sync_loop :: "(nat \<Rightarrow> sqlval) \<Rightarrow> nat \<Rightarrow> pyval list \<Rightarrow> store \<Rightarrow> int \<Rightarrow> store \<times> int result" where
  "sync_loop clock i [] s new_count = (s, Inr new_count)"
| "sync_loop clock i (fixture_raw # rest) s new_count =
     (case parse_fixture fixture_raw of
        Inl e \<Rightarrow> (s, Inl e)
      | Inr fixture_data \<Rightarrow>
          (case insert_fixture (clock i) fixture_data s of
             (s', Inl e) \<Rightarrow> (s', Inl e)
           | (s', Inr ok) \<Rightarrow>
               sync_loop clock (Suc i) rest s' (if ok then new_count + 1 else new_count)))"

text \<open>
  The body of the \<^verbatim>\<open>try\<close> block. \<open>get_team_fixtures\<close> is the provider call of the API
  client (team, league id, season), which returns the raw records or raises.
\<close>

definition sync_body ::
  "(int \<Rightarrow> int \<Rightarrow> int \<Rightarrow> pyval list result) \<Rightarrow> (nat \<Rightarrow> sqlval) \<Rightarrow> int \<Rightarrow> string \<Rightarrow> int \<Rightarrow> store \<Rightarrow>
   store \<times> (int \<times> int) result" where
  "sync_body get_team_fixtures clock team_id competition season_arg s =
     (case map_of COMPETITIONS competition of
        None \<Rightarrow> (s, Inl ValueError)
      | Some comp_data \<Rightarrow>
          (case get_team_fixtures team_id (fst comp_data) season_arg of
             Inl e \<Rightarrow> (s, Inl e)
           | Inr raw_fixtures \<Rightarrow>
               (case sync_loop clock 0 raw_fixtures s 0 of
                  (s', Inl e) \<Rightarrow> (s', Inl e)
                | (s', Inr new_count) \<Rightarrow> (s', Inr (int (length raw_fixtures), new_count)))))"

text \<open>\<^verbatim>\<open>except Exception\<close>: every exception of the body becomes the result \<^verbatim>\<open>(0, 0)\<close>.\<close>

definition sync_team_fixtures ::
  "(int \<Rightarrow> int \<Rightarrow> int \<Rightarrow> pyval list result) \<Rightarrow> (nat \<Rightarrow> sqlval) \<Rightarrow> int \<Rightarrow> string \<Rightarrow> int \<Rightarrow> store \<Rightarrow>
   store \<times> (int \<times> int)" where
  "sync_team_fixtures get_team_fixtures clock team_id competition season_arg s =
     (case sync_body get_team_fixtures clock team_id competition season_arg s of
        (s', Inl e) \<Rightarrow> (s', (0, 0))
      | (s', Inr counts) \<Rightarrow> (s', counts))"

section \<open>Notions used in the statements\<close>

text \<open>
  The key constraints of the schema: \<^verbatim>\<open>fixture_id INTEGER PRIMARY KEY\<close> on \<^verbatim>\<open>fixtures\<close>
  and \<^verbatim>\<open>UNIQUE(fixture_id)\<close> on \<^verbatim>\<open>attended_matches\<close>. The empty store satisfies them and
  every operation preserves them.
\<close>

definition key_constraints :: "store \<Rightarrow> bool" where
  "key_constraints s =
     (distinct (map fixture_id (fixtures s)) \<and> distinct (map am_fixture_id (attended_matches s)))"

text \<open>The team is the home or the away side of the fixture.\<close>

definition plays :: "int \<Rightarrow> fixture_row \<Rightarrow> bool" where
  "plays t f = (home_team_id f = IntV t \<or> away_team_id f = IntV t)"

text \<open>The fixture carries an attendance mark.\<close>

definition has_mark :: "store \<Rightarrow> fixture_row \<Rightarrow> bool" where
  "has_mark s f = (fixture_id f \<in> set (map am_fixture_id (attended_matches s)))"

text \<open>Two result rows are in descending order of \<open>date\<close>.\<close>

definition date_desc :: "fixture_row \<Rightarrow> fixture_row \<Rightarrow> bool" where
  "date_desc a b = (\<not> val_less (date a) (date b))"

text \<open>
  The goals the team scored and conceded in a fixture it plays, and the fixtures for
  which a result can be read: both goal columns hold a value and the two sides differ.
\<close>

definition goals_for :: "int \<Rightarrow> fixture_row \<Rightarrow> sqlval" where
  "goals_for t f = (if home_team_id f = IntV t then home_goals f else away_goals f)"

definition goals_against :: "int \<Rightarrow> fixture_row \<Rightarrow> sqlval" where
  "goals_against t f = (if home_team_id f = IntV t then away_goals f else home_goals f)"

definition scored :: "fixture_row \<Rightarrow> bool" where
  "scored f = (home_goals f \<noteq> Null \<and> away_goals f \<noteq> Null \<and> home_team_id f \<noteq> away_team_id f)"

text \<open>
  Reading a raw record without failing: \<open>field_or obj key dflt\<close> is the value of
  \<^verbatim>\<open>obj.get(key, dflt)\<close> when \<open>obj\<close> is a dictionary. \<open>dict_at obj key\<close> says that \<open>obj\<close> is a
  dictionary in which \<open>key\<close> is absent or bound to a dictionary. A raw record has
  well-formed sections when this holds for the five sections the normalizer reads and
  for the nested objects it reads in them.
\<close>

definition is_dict :: "pyval \<Rightarrow> bool" where
  "is_dict v = (case v of PDict kvs \<Rightarrow> True | _ \<Rightarrow> False)"

definition field_or :: "pyval \<Rightarrow> string \<Rightarrow> pyval \<Rightarrow> pyval" where
  "field_or obj key dflt =
     (case obj of
        PDict kvs \<Rightarrow> (case map_of kvs key of Some v \<Rightarrow> v | None \<Rightarrow> dflt)
      | _ \<Rightarrow> dflt)"

definition dict_at :: "pyval \<Rightarrow> string \<Rightarrow> bool" where
  "dict_at obj key = (is_dict obj \<and> is_dict (field_or obj key (PDict [])))"

definition sections_ok :: "pyval \<Rightarrow> bool" where
  "sections_ok raw =
     (dict_at raw ''fixture'' \<and> dict_at raw ''teams'' \<and> dict_at raw ''goals'' \<and>
      dict_at raw ''league'' \<and> dict_at raw ''score'' \<and>
      dict_at (field_or raw ''fixture'' (PDict [])) ''status'' \<and>
      dict_at (field_or raw ''fixture'' (PDict [])) ''venue'' \<and>
      dict_at (field_or raw ''teams'' (PDict [])) ''home'' \<and>
      dict_at (field_or raw ''teams'' (PDict [])) ''away'' \<and>
      dict_at (field_or raw ''score'' (PDict [])) ''halftime'' \<and>
      dict_at (field_or raw ''score'' (PDict [])) ''fulltime'')"

text \<open>
  The record's date field and short status code, with the defaults of the normalizer
  for a missing field.
\<close>

definition date_field :: "pyval \<Rightarrow> pyval" where
  "date_field raw = field_or (field_or raw ''fixture'' (PDict [])) ''date'' (PStr '''')"

definition short_code :: "pyval \<Rightarrow> pyval" where
  "short_code raw =
     field_or (field_or (field_or raw ''fixture'' (PDict [])) ''status'' (PDict [])) ''short''
       (PStr '''')"

text \<open>
  The normalized fixture of a raw record whose date is \<open>dt\<close>: every field read from its
  place in the record, with the empty string, \<^verbatim>\<open>N/A\<close> or \<^verbatim>\<open>None\<close> for a missing one.
\<close>

definition normalized :: "pyval \<Rightarrow> datetime \<Rightarrow> pydict" where
  "normalized raw dt =
     (let fixture = field_or raw ''fixture'' (PDict []);
          teams = field_or raw ''teams'' (PDict []);
          goals = field_or raw ''goals'' (PDict []);
          league = field_or raw ''league'' (PDict []);
          score = field_or raw ''score'' (PDict []);
          sub = (\<lambda>obj key. field_or obj key (PDict []))
      in [(''fixture_id'', field_or fixture ''id'' PNone),
          (''date'', PDatetime dt),
          (''date_formatted'', PStr (strftime dt)),
          (''timestamp'', field_or fixture ''timestamp'' PNone),
          (''venue'', field_or (sub fixture ''venue'') ''name'' (PStr ''N/A'')),
          (''venue_city'', field_or (sub fixture ''venue'') ''city'' (PStr ''N/A'')),
          (''status'', PStr (match_status (short_code raw))),
          (''status_long'', field_or (sub fixture ''status'') ''long'' (PStr '''')),
          (''league_id'', field_or league ''id'' PNone),
          (''league_name'', field_or league ''name'' (PStr '''')),
          (''season'', field_or league ''season'' PNone),
          (''round'', field_or league ''round'' (PStr '''')),
          (''home_team_id'', field_or (sub teams ''home'') ''id'' PNone),
          (''home_team_name'', field_or (sub teams ''home'') ''name'' (PStr '''')),
          (''away_team_id'', field_or (sub teams ''away'') ''id'' PNone),
          (''away_team_name'', field_or (sub teams ''away'') ''name'' (PStr '''')),
          (''home_goals'', field_or goals ''home'' PNone),
          (''away_goals'', field_or goals ''away'' PNone),
          (''halftime_home'', field_or (sub score ''halftime'') ''home'' PNone),
          (''halftime_away'', field_or (sub score ''halftime'') ''away'' PNone),
          (''fulltime_home'', field_or (sub score ''fulltime'') ''home'' PNone),
          (''fulltime_away'', field_or (sub score ''fulltime'') ''away'' PNone)])"

section \<open>Example data\<close>

text \<open>
  Normalized fixtures as \<^verbatim>\<open>parse_fixture\<close> produces them (the keys \<^verbatim>\<open>insert_fixture\<close> does
  not read are left out), and two values of \<^verbatim>\<open>CURRENT_TIMESTAMP\<close>. The stores of the
  examples are built from the empty store with the operations themselves.
\<close>

definition example_fixture :: "int \<Rightarrow> nat \<Rightarrow> string \<Rightarrow> int \<Rightarrow> int \<Rightarrow> pyval \<Rightarrow> pyval \<Rightarrow> pydict" where
  "example_fixture fid d st home away hg ag =
     [(''fixture_id'', PInt fid),
      (''date'', PDatetime \<lparr>year = 2024, month = 4, day = d, hour = 19, minute = 0, second = 0,
                            microsecond = 0, utcoffset = Some 0\<rparr>),
      (''venue'', PStr ''Maracana''),
      (''status'', PStr st),
      (''home_team_id'', PInt home),
      (''home_team_name'', PStr ''Home''),
      (''away_team_id'', PInt away),
      (''away_team_name'', PStr ''Away''),
      (''home_goals'', hg),
      (''away_goals'', ag)]"

definition time_a :: sqlval where
  "time_a = TextV ''2024-04-01 10:00:00''"

definition time_b :: sqlval where
  "time_b = TextV ''2024-04-14 08:00:00''"

text \<open>Fixture 1, teams 10 and 20, finished 2-1, synced at \<open>time_a\<close>.\<close>

definition store_one :: store where
  "store_one =
     fst (insert_fixture time_a (example_fixture 1 13 ''finished'' 10 20 (PInt 2) (PInt 1))
            initialize_database)"

text \<open>Fixture 1 marked as attended, and the scheduled fixture 3 of teams 10 and 40.\<close>

definition store_two :: store where
  "store_two =
     fst (insert_fixture time_b (example_fixture 3 27 ''scheduled'' 10 40 PNone PNone)
            (fst (mark_attended time_b 1 (Some ''great match'') store_one)))"

text \<open>The rows and the mark these stores hold.\<close>

definition row_one :: "sqlval \<Rightarrow> sqlval \<Rightarrow> sqlval \<Rightarrow> fixture_row" where
  "row_one hg ag t = \<lparr>fixture_id = 1, date = TextV ''2024-04-13 19:00:00+00:00'', timestamp = Null,
          venue = TextV ''Maracana'', venue_city = Null, status = TextV ''finished'',
          status_long = Null, league_id = Null, season = Null, round = Null,
          home_team_id = IntV 10, home_team_name = TextV ''Home'', away_team_id = IntV 20,
          away_team_name = TextV ''Away'', home_goals = hg, away_goals = ag,
          halftime_home = Null, halftime_away = Null, fulltime_home = Null,
          fulltime_away = Null, created_at = t, updated_at = t\<rparr>"

definition row_three :: fixture_row where
  "row_three = \<lparr>fixture_id = 3, date = TextV ''2024-04-27 19:00:00+00:00'', timestamp = Null,
          venue = TextV ''Maracana'', venue_city = Null, status = TextV ''scheduled'',
          status_long = Null, league_id = Null, season = Null, round = Null,
          home_team_id = IntV 10, home_team_name = TextV ''Home'', away_team_id = IntV 40,
          away_team_name = TextV ''Away'', home_goals = Null, away_goals = Null,
          halftime_home = Null, halftime_away = Null, fulltime_home = Null,
          fulltime_away = Null, created_at = time_b, updated_at = time_b\<rparr>"

definition mark_one :: attended_row where
  "mark_one = \<lparr>am_id = 1, am_fixture_id = 1, am_attended_date = time_b,
                am_notes = TextV ''great match''\<rparr>"

text \<open>A mark for fixture 7, of which the store has no row.\<close>

definition store_orphan :: store where
  "store_orphan = fst (mark_attended time_a 7 None initialize_database)"

text \<open>
  Stores for the statistics: the attended fixture 2, finished with no goals recorded;
  the attended fixture 4, in which team 10 is both sides; and three attended finished
  fixtures of team 10, won 2-1 at home, lost 3-0 away and drawn 1-1 at home.
\<close>

definition example_row ::
  "int \<Rightarrow> string \<Rightarrow> string \<Rightarrow> int \<Rightarrow> int \<Rightarrow> sqlval \<Rightarrow> sqlval \<Rightarrow> sqlval \<Rightarrow> fixture_row" where
  "example_row fid d st home away hg ag t =
     \<lparr>fixture_id = fid, date = TextV d, timestamp = Null,
      venue = TextV ''Maracana'', venue_city = Null, status = TextV st,
      status_long = Null, league_id = Null, season = Null, round = Null,
      home_team_id = IntV home, home_team_name = TextV ''Home'', away_team_id = IntV away,
      away_team_name = TextV ''Away'', home_goals = hg, away_goals = ag,
      halftime_home = Null, halftime_away = Null, fulltime_home = Null,
      fulltime_away = Null, created_at = t, updated_at = t\<rparr>"

definition store_unscored :: store where
  "store_unscored =
     fst (mark_attended time_b 2 None
       (fst (insert_fixture time_a (example_fixture 2 20 ''finished'' 30 10 PNone PNone)
               initialize_database)))"

definition store_self :: store where
  "store_self =
     fst (mark_attended time_b 4 None
       (fst (insert_fixture time_a (example_fixture 4 21 ''finished'' 10 10 (PInt 3) (PInt 0))
               initialize_database)))"

definition store_three :: store where
  "store_three =
     fst (mark_attended time_b 6 None
      (fst (mark_attended time_b 5 None
       (fst (mark_attended time_b 1 None
        (fst (insert_fixture time_a (example_fixture 6 15 ''finished'' 10 60 (PInt 1) (PInt 1))
         (fst (insert_fixture time_a (example_fixture 5 14 ''finished'' 50 10 (PInt 3) (PInt 0))
           store_one)))))))))"

text \<open>
  Two raw records: one that holds nothing but a date, and one as the provider sends it
  for a finished match.
\<close>

definition raw_minimal :: pyval where
  "raw_minimal = PDict [(''fixture'', PDict [(''date'', PStr ''2024-04-13T19:00:00Z'')])]"

definition raw_example :: pyval where
  "raw_example =
     PDict [
       (''fixture'', PDict [
          (''id'', PInt 1180355),
          (''date'', PStr ''2024-04-13T21:30:00+00:00''),
          (''timestamp'', PInt 1713043800),
          (''venue'', PDict [(''id'', PInt 204), (''name'', PStr ''Maracana''),
                             (''city'', PStr ''Rio de Janeiro'')]),
          (''status'', PDict [(''long'', PStr ''Match Finished''), (''short'', PStr ''FT''),
                              (''elapsed'', PInt 90)])]),
       (''league'', PDict [(''id'', PInt 71), (''name'', PStr ''Serie A''),
                           (''season'', PInt 2024), (''round'', PStr ''Regular Season - 1'')]),
       (''teams'', PDict [
          (''home'', PDict [(''id'', PInt 127), (''name'', PStr ''Flamengo''),
                            (''winner'', PBool True)]),
          (''away'', PDict [(''id'', PInt 121), (''name'', PStr ''Palmeiras''),
                            (''winner'', PBool False)])]),
       (''goals'', PDict [(''home'', PInt 2), (''away'', PInt 1)]),
       (''score'', PDict [
          (''halftime'', PDict [(''home'', PInt 1), (''away'', PInt 0)]),
          (''fulltime'', PDict [(''home'', PInt 2), (''away'', PInt 1)]),
          (''extratime'', PDict [(''home'', PNone), (''away'', PNone)])])]"

definition example_kickoff :: "nat \<Rightarrow> nat \<Rightarrow> datetime" where
  "example_kickoff h m = \<lparr>year = 2024, month = 4, day = 13, hour = h, minute = m, second = 0,
                          microsecond = 0, utcoffset = Some 0\<rparr>"

section \<open>Auxiliary facts\<close>

subsection \<open>The order of SQL values\<close>

lemma val_less_irrefl: "\<not> val_less a a"
  by (cases a) auto

lemma val_less_trans: "val_less a b \<Longrightarrow> val_less b c \<Longrightarrow> val_less a c"
  by (cases a; cases b; cases c) auto

lemma val_less_total: "val_less a b \<or> a = b \<or> val_less b a"
  by (cases a; cases b) auto

lemma val_less_asym: "val_less a b \<Longrightarrow> \<not> val_less b a"
  by (cases a; cases b) auto

lemma not_val_less_trans: "\<not> val_less a b \<Longrightarrow> \<not> val_less b c \<Longrightarrow> \<not> val_less a c"
  using val_less_total [of a b] val_less_total [of b c] val_less_trans val_less_irrefl
  by metis

subsection \<open>Three-valued conditions\<close>

lemma is_true_sql_and: "is_true (sql_and a b) \<longleftrightarrow> is_true a \<and> is_true b"
  by (induction a b rule: sql_and.induct) (auto simp: is_true_def)

lemma is_true_sql_or: "is_true (sql_or a b) \<longleftrightarrow> is_true a \<or> is_true b"
  by (induction a b rule: sql_or.induct) (auto simp: is_true_def)

lemma is_true_sql_eq: "is_true (sql_eq a b) \<longleftrightarrow> a \<noteq> Null \<and> a = b"
  by (auto simp: is_true_def sql_eq_def)

lemma is_true_sql_lt: "is_true (sql_lt a b) \<longleftrightarrow> a \<noteq> Null \<and> b \<noteq> Null \<and> val_less a b"
  by (auto simp: is_true_def sql_lt_def)

lemma is_true_Some: "is_true (Some b) = b"
  by (simp add: is_true_def)

lemma is_true_team_where: "is_true (team_where t f) \<longleftrightarrow> plays t f"
  by (auto simp: team_where_def plays_def is_true_sql_or is_true_sql_eq)

subsection \<open>ORDER BY\<close>

lemma set_insert_desc: "set (insert_desc x ys) = insert x (set ys)"
  by (induction ys) auto

lemma set_order_by_date_desc: "set (order_by_date_desc rows) = set rows"
  by (induction rows) (auto simp: order_by_date_desc_def set_insert_desc)

lemma sorted_insert_desc:
  "sorted_wrt (\<lambda>a b. date_desc (fst a) (fst b)) ys \<Longrightarrow>
   sorted_wrt (\<lambda>a b. date_desc (fst a) (fst b)) (insert_desc x ys)"
proof (induction ys)
  case Nil
  then show ?case by simp
next
  case (Cons y ys)
  show ?case
  proof (cases "val_less (date (fst x)) (date (fst y))")
    case True
    have "date_desc (fst y) (fst x)"
      using True val_less_asym by (auto simp: date_desc_def)
    with Cons True show ?thesis
      by (auto simp: set_insert_desc)
  next
    case False
    have "date_desc (fst x) (fst z)" if "z \<in> set ys" for z
      using Cons.prems that False not_val_less_trans by (auto simp: date_desc_def)
    with Cons False show ?thesis
      by (auto simp: date_desc_def)
  qed
qed

lemma sorted_order_by_date_desc:
  "sorted_wrt (\<lambda>a b. date_desc (fst a) (fst b)) (order_by_date_desc rows)"
  by (induction rows) (auto simp: order_by_date_desc_def sorted_insert_desc)

lemma distinct_map_insert_desc:
  "distinct (map g (insert_desc x ys)) = (g x \<notin> g ` set ys \<and> distinct (map g ys))"
  by (induction ys) (auto simp: set_insert_desc)

lemma distinct_map_order_by_date_desc:
  "distinct (map g (order_by_date_desc rows)) = distinct (map g rows)"
  by (induction rows)
     (auto simp: order_by_date_desc_def distinct_map_insert_desc set_order_by_date_desc [unfolded order_by_date_desc_def])

subsection \<open>The joins\<close>

lemma join_rows_Some:
  "(g, Some am) \<in> set (join_rows s f) \<longleftrightarrow>
     g = f \<and> am \<in> set (attended_matches s) \<and> fixture_id f = am_fixture_id am"
  by (auto simp: join_rows_def marks_of_def filter_empty_conv)

lemma join_rows_None:
  "(g, None) \<in> set (join_rows s f) \<longleftrightarrow> g = f \<and> \<not> has_mark s f"
  by (auto simp: join_rows_def marks_of_def filter_empty_conv has_mark_def)

lemma left_join_Some:
  "(f, Some am) \<in> set (left_join s) \<longleftrightarrow>
     f \<in> set (fixtures s) \<and> am \<in> set (attended_matches s) \<and> fixture_id f = am_fixture_id am"
  by (auto simp: left_join_def join_rows_Some)

lemma left_join_None:
  "(f, None) \<in> set (left_join s) \<longleftrightarrow> f \<in> set (fixtures s) \<and> \<not> has_mark s f"
  by (auto simp: left_join_def join_rows_None)

lemma left_join_row:
  "row \<in> set (left_join s) \<longleftrightarrow>
     fst row \<in> set (fixtures s) \<and>
     (case snd row of
        None \<Rightarrow> \<not> has_mark s (fst row)
      | Some am \<Rightarrow> am \<in> set (attended_matches s) \<and> fixture_id (fst row) = am_fixture_id am)"
  by (cases row, cases "snd row") (auto simp: left_join_Some left_join_None)

lemma has_mark_iff: "has_mark s f \<longleftrightarrow> (\<exists>am\<in>set (attended_matches s). fixture_id f = am_fixture_id am)"
  by (auto simp: has_mark_def)

lemma length_marks_of:
  "distinct (map am_fixture_id (attended_matches s)) \<Longrightarrow> length (marks_of s f) \<le> 1"
proof -
  assume d: "distinct (map am_fixture_id (attended_matches s))"
  have "distinct (map am_fixture_id ams) \<Longrightarrow>
        length (filter (\<lambda>am. k = am_fixture_id am) ams) \<le> 1" for ams k
    by (induction ams) (auto simp: filter_empty_conv)
  with d show ?thesis by (simp add: marks_of_def)
qed

lemma fst_left_join:
  assumes "distinct (map am_fixture_id (attended_matches s))"
  shows "map fst (left_join s) = fixtures s"
proof -
  have one: "map fst (join_rows s f) = [f]" for f
  proof (cases "marks_of s f")
    case Nil
    then show ?thesis by (simp add: join_rows_def)
  next
    case (Cons am ams)
    with length_marks_of [OF assms, of f] have "ams = []" by simp
    with Cons show ?thesis by (simp add: join_rows_def)
  qed
  have "map fst (concat (map (join_rows s) fs)) = fs" for fs
    by (induction fs) (auto simp: one)
  then show ?thesis by (simp add: left_join_def)
qed

lemma inner_join_iff:
  "(am, f) \<in> set (inner_join s) \<longleftrightarrow>
     am \<in> set (attended_matches s) \<and> f \<in> set (fixtures s) \<and> am_fixture_id am = fixture_id f"
  by (auto simp: inner_join_def)

subsection \<open>The WHERE clause of get\_fixtures\<close>

lemma is_true_fixtures_where:
  "is_true (fixtures_where team_id status_filter attended_only row) \<longleftrightarrow>
     (case truthy_int team_id of None \<Rightarrow> True | Some t \<Rightarrow> plays t (fst row)) \<and>
     (case truthy_str status_filter of None \<Rightarrow> True | Some st \<Rightarrow> status (fst row) = TextV st) \<and>
     (if attended_only then snd row \<noteq> None else True)"
  by (auto simp: fixtures_where_def Let_def is_true_sql_and is_true_Some is_true_team_where
        is_true_sql_eq split: option.splits)

lemma truthy_int_Some: "truthy_int x = Some t \<longleftrightarrow> x = Some t \<and> t \<noteq> 0"
  by (auto simp: truthy_int_def split: option.splits)

lemma truthy_str_Some: "truthy_str x = Some t \<longleftrightarrow> x = Some t \<and> t \<noteq> []"
  by (auto simp: truthy_str_def split: option.splits)

subsection \<open>The result of get\_fixtures\<close>

lemma get_fixtures_set:
  "v \<in> set (get_fixtures team_id status_filter attended_only s) \<longleftrightarrow>
     (\<exists>row\<in>set (left_join s). v = view_of row \<and>
        is_true (fixtures_where team_id status_filter attended_only row))"
  by (auto simp: get_fixtures_def set_order_by_date_desc)

lemma fixture_view_of: "fixture (view_of row) = fst row"
  by (simp add: view_of_def split: option.splits)

lemma attended_view_of: "attended (view_of row) = (if snd row = None then 0 else 1)"
  by (simp add: view_of_def split: option.splits)

lemma get_fixtures_sorted:
  "sorted_wrt (\<lambda>a b. date_desc (fixture a) (fixture b))
     (get_fixtures team_id status_filter attended_only s)"
proof -
  have "sorted_wrt (\<lambda>a b. date_desc (fixture (view_of a)) (fixture (view_of b)))
          (order_by_date_desc rows)" for rows
    using sorted_order_by_date_desc [of rows] by (simp add: fixture_view_of)
  then show ?thesis
    by (simp add: get_fixtures_def sorted_wrt_map)
qed

lemma get_fixtures_joined:
  assumes "v \<in> set (get_fixtures team_id status_filter attended_only s)"
  shows "fixture v \<in> set (fixtures s) \<and>
         (if has_mark s (fixture v)
          then attended v = 1 \<and>
               (\<exists>am\<in>set (attended_matches s). am_fixture_id am = fixture_id (fixture v) \<and>
                  attended_date v = am_attended_date am \<and> view_notes v = am_notes am)
          else attended v = 0 \<and> attended_date v = Null \<and> view_notes v = Null)"
proof -
  from assms obtain row where row: "row \<in> set (left_join s)" and v: "v = view_of row"
    by (auto simp: get_fixtures_set)
  show ?thesis
  proof (cases "snd row")
    case None
    with row v show ?thesis
      by (auto simp: left_join_row view_of_def)
  next
    case (Some am)
    with row have "am \<in> set (attended_matches s)" "fixture_id (fst row) = am_fixture_id am"
      by (auto simp: left_join_row)
    with row v Some show ?thesis
      by (auto simp: left_join_row view_of_def has_mark_iff)
  qed
qed

lemma get_fixtures_conds:
  assumes "v \<in> set (get_fixtures team_id status_filter attended_only s)"
  shows "(case truthy_int team_id of None \<Rightarrow> True | Some t \<Rightarrow> plays t (fixture v)) \<and>
         (case truthy_str status_filter of None \<Rightarrow> True | Some st \<Rightarrow> status (fixture v) = TextV st) \<and>
         (if attended_only then attended v = 1 \<and> has_mark s (fixture v) else True)"
proof -
  from assms obtain row where row: "row \<in> set (left_join s)" and v: "v = view_of row"
    and w: "is_true (fixtures_where team_id status_filter attended_only row)"
    by (auto simp: get_fixtures_set)
  from row have "snd row \<noteq> None \<Longrightarrow> has_mark s (fst row)"
    by (auto simp: left_join_row has_mark_iff)
  with w v show ?thesis
    by (auto simp: is_true_fixtures_where fixture_view_of attended_view_of split: option.splits if_splits)
qed

lemma get_fixtures_complete:
  "fixture ` set (get_fixtures team_id status_filter attended_only s) =
     {f \<in> set (fixtures s).
        (case truthy_int team_id of None \<Rightarrow> True | Some t \<Rightarrow> plays t f) \<and>
        (case truthy_str status_filter of None \<Rightarrow> True | Some st \<Rightarrow> status f = TextV st) \<and>
        (if attended_only then has_mark s f else True)}"
  (is "?L = ?R")
proof
  show "?L \<subseteq> ?R"
  proof
    fix f assume "f \<in> ?L"
    then obtain v where v: "v \<in> set (get_fixtures team_id status_filter attended_only s)"
      and f: "f = fixture v"
      by auto
    from get_fixtures_conds [OF v] get_fixtures_joined [OF v] f
    show "f \<in> ?R"
      by (simp split: if_splits)
  qed
  show "?R \<subseteq> ?L"
  proof
    fix f assume f: "f \<in> ?R"
    show "f \<in> ?L"
    proof (cases "has_mark s f")
      case True
      then obtain am where am: "am \<in> set (attended_matches s)" "fixture_id f = am_fixture_id am"
        by (auto simp: has_mark_iff)
      with f have "(f, Some am) \<in> set (left_join s)"
        by (simp add: left_join_Some)
      moreover from f have "is_true (fixtures_where team_id status_filter attended_only (f, Some am))"
        by (auto simp: is_true_fixtures_where split: option.splits)
      ultimately have "view_of (f, Some am) \<in> set (get_fixtures team_id status_filter attended_only s)"
        by (auto simp: get_fixtures_set)
      then have "fixture (view_of (f, Some am)) \<in> ?L"
        by (rule imageI)
      then show ?thesis
        by (simp add: fixture_view_of)
    next
      case False
      with f have "(f, None) \<in> set (left_join s)"
        by (simp add: left_join_None)
      moreover from f False
      have "is_true (fixtures_where team_id status_filter attended_only (f, None))"
        by (auto simp: is_true_fixtures_where split: if_splits option.splits)
      ultimately have "view_of (f, None) \<in> set (get_fixtures team_id status_filter attended_only s)"
        by (auto simp: get_fixtures_set)
      then have "fixture (view_of (f, None)) \<in> ?L"
        by (rule imageI)
      then show ?thesis
        by (simp add: fixture_view_of)
    qed
  qed
qed

lemma get_fixtures_distinct:
  assumes "key_constraints s"
  shows "distinct (map (\<lambda>v. fixture_id (fixture v)) (get_fixtures team_id status_filter attended_only s))"
proof -
  from assms have fs: "map fst (left_join s) = fixtures s"
    and d: "distinct (map fixture_id (fixtures s))"
    by (auto simp: key_constraints_def fst_left_join)
  have "map (\<lambda>row. fixture_id (fst row)) (left_join s) = map fixture_id (map fst (left_join s))"
    by simp
  with d fs have "distinct (map (\<lambda>row. fixture_id (fst row)) (left_join s))"
    by simp
  then have "distinct (map (\<lambda>row. fixture_id (fst row)) (filter P (left_join s)))" for P
    by (simp add: distinct_map_filter)
  then show ?thesis
    by (simp add: get_fixtures_def comp_def fixture_view_of distinct_map_order_by_date_desc)
qed

subsection \<open>The result of insert\_fixture\<close>

lemma insert_fixture_result:
  "(\<exists>e. insert_fixture now fixture_data s = (s, Inl e)) \<or>
   (\<exists>p fid. insert_fixture now fixture_data s =
      (s\<lparr>fixtures := filter (\<lambda>r. fixture_id r \<noteq> fid) (fixtures s) @ [new_row p fid now]\<rparr>,
       Inr True))"
proof (cases "sequence_res (map (\<lambda>c. adapt (dict_get fixture_data c)) fixture_columns)")
  case (Inl e)
  then show ?thesis by (simp add: insert_fixture_def)
next
  case (Inr params)
  show ?thesis
  proof (cases "rowid_of (param params ''fixture_id'') (fixtures s)")
    case (Inl e)
    with Inr show ?thesis by (simp add: insert_fixture_def)
  next
    case fid: (Inr fid)
    with Inr show ?thesis by (simp add: insert_fixture_def) blast
  qed
qed

lemma insert_fixture_cases:
  obtains (failed) e where "insert_fixture now fixture_data s = (s, Inl e)"
  | (written) p fid where
      "insert_fixture now fixture_data s =
         (s\<lparr>fixtures := filter (\<lambda>r. fixture_id r \<noteq> fid) (fixtures s) @ [new_row p fid now]\<rparr>,
          Inr True)"
  using insert_fixture_result [of now fixture_data s] by blast

lemma fixture_id_new_row: "fixture_id (new_row p fid now) = fid"
  by (simp add: new_row_def)

lemma insert_fixture_frame:
  "attended_matches (fst (insert_fixture now fixture_data s)) = attended_matches s \<and>
   am_seq (fst (insert_fixture now fixture_data s)) = am_seq s"
  by (cases rule: insert_fixture_cases [of now fixture_data s]) auto

lemma insert_fixture_keeps_ids:
  assumes "f \<in> set (fixtures s)"
  shows "\<exists>g\<in>set (fixtures (fst (insert_fixture now fixture_data s))). fixture_id g = fixture_id f"
proof (cases rule: insert_fixture_cases [of now fixture_data s])
  case (failed e)
  with assms show ?thesis by auto
next
  case (written p fid)
  with assms show ?thesis
    by (cases "fixture_id f = fid") (auto simp: fixture_id_new_row)
qed

lemma has_mark_insert_fixture:
  "has_mark (fst (insert_fixture now fixture_data s)) f = has_mark s f"
  by (simp add: has_mark_def insert_fixture_frame)

subsection \<open>The example stores\<close>

lemma insert_example:
  "insert_fixture now (example_fixture fid d st home away hg ag) s =
     (case sequence_res [adapt hg, adapt ag] of
        Inl e \<Rightarrow> (s, Inl e)
      | Inr gs \<Rightarrow>
         (s\<lparr>fixtures := filter (\<lambda>r. fixture_id r \<noteq> fid) (fixtures s) @
            [\<lparr>fixture_id = fid,
              date = TextV (isoformat \<lparr>year = 2024, month = 4, day = d, hour = 19, minute = 0,
                       second = 0, microsecond = 0, utcoffset = Some 0\<rparr>),
              timestamp = Null, venue = TextV ''Maracana'', venue_city = Null,
              status = TextV st, status_long = Null, league_id = Null, season = Null,
              round = Null, home_team_id = IntV home, home_team_name = TextV ''Home'',
              away_team_id = IntV away, away_team_name = TextV ''Away'',
              home_goals = gs ! 0, away_goals = gs ! 1, halftime_home = Null,
              halftime_away = Null, fulltime_home = Null, fulltime_away = Null,
              created_at = now, updated_at = now\<rparr>]\<rparr>, Inr True))"
  by (cases "adapt hg"; cases "adapt ag")
     (simp_all add: insert_fixture_def example_fixture_def fixture_columns_def dict_get_def
        adapt_def rowid_of_def param_def new_row_def)

lemma isoformat_example:
  "isoformat \<lparr>year = 2024, month = 4, day = 13, hour = 19, minute = 0,
       second = 0, microsecond = 0, utcoffset = Some 0\<rparr> = ''2024-04-13 19:00:00+00:00''"
  by (simp add: isoformat_def pad2_def pad4_def pad6_def digit_char_def format_offset_def)

lemma store_one_eq:
  "store_one =
     \<lparr>fixtures =
        [\<lparr>fixture_id = 1, date = TextV ''2024-04-13 19:00:00+00:00'', timestamp = Null,
          venue = TextV ''Maracana'', venue_city = Null, status = TextV ''finished'',
          status_long = Null, league_id = Null, season = Null, round = Null,
          home_team_id = IntV 10, home_team_name = TextV ''Home'', away_team_id = IntV 20,
          away_team_name = TextV ''Away'', home_goals = IntV 2, away_goals = IntV 1,
          halftime_home = Null, halftime_away = Null, fulltime_home = Null,
          fulltime_away = Null, created_at = time_a, updated_at = time_a\<rparr>],
      attended_matches = [], am_seq = 0\<rparr>"
  by (simp add: store_one_def insert_example adapt_def initialize_database_def isoformat_example)

lemma isoformat_example2:
  "isoformat \<lparr>year = 2024, month = 4, day = 27, hour = 19, minute = 0,
       second = 0, microsecond = 0, utcoffset = Some 0\<rparr> = ''2024-04-27 19:00:00+00:00''"
  by (simp add: isoformat_def pad2_def pad4_def pad6_def digit_char_def format_offset_def)

lemma store_one_rows:
  "store_one = \<lparr>fixtures = [row_one (IntV 2) (IntV 1) time_a], attended_matches = [], am_seq = 0\<rparr>"
  by (simp add: store_one_eq row_one_def)

lemma store_two_rows:
  "store_two = \<lparr>fixtures = [row_one (IntV 2) (IntV 1) time_a, row_three],
                 attended_matches = [mark_one], am_seq = 1\<rparr>"
  by (simp add: store_two_def store_one_rows mark_attended_def insert_attended_def sqlite_int_def
        insert_example adapt_def isoformat_example2 row_one_def row_three_def mark_one_def)

lemma get_fixtures_two_all:
  "get_fixtures None None False store_two =
     [\<lparr>fixture = row_three, attended = 0, attended_date = Null, view_notes = Null\<rparr>,
      \<lparr>fixture = row_one (IntV 2) (IntV 1) time_a, attended = 1, attended_date = time_b,
        view_notes = TextV ''great match''\<rparr>]"
  by (simp add: store_two_rows get_fixtures_def left_join_def join_rows_def marks_of_def
        fixtures_where_def truthy_int_def truthy_str_def is_true_def order_by_date_desc_def
        view_of_def row_one_def row_three_def mark_one_def)

lemma get_fixtures_two_filtered:
  "get_fixtures (Some 10) (Some ''finished'') True store_two =
     [\<lparr>fixture = row_one (IntV 2) (IntV 1) time_a, attended = 1, attended_date = time_b,
        view_notes = TextV ''great match''\<rparr>]"
  by (simp add: store_two_rows get_fixtures_def left_join_def join_rows_def marks_of_def
        fixtures_where_def truthy_int_def truthy_str_def is_true_def order_by_date_desc_def
        view_of_def row_one_def row_three_def mark_one_def team_where_def sql_eq_def)

lemma get_fixtures_one_zero:
  "get_fixtures (Some 0) None False store_one =
     [\<lparr>fixture = row_one (IntV 2) (IntV 1) time_a, attended = 0, attended_date = Null,
        view_notes = Null\<rparr>] \<and>
   get_fixtures None (Some '''') False store_one =
     [\<lparr>fixture = row_one (IntV 2) (IntV 1) time_a, attended = 0, attended_date = Null,
        view_notes = Null\<rparr>]"
  by (simp add: store_one_rows get_fixtures_def left_join_def join_rows_def marks_of_def
        fixtures_where_def truthy_int_def truthy_str_def is_true_def order_by_date_desc_def
        view_of_def)

lemma store_marked_rows:
  "fst (mark_attended time_b 1 (Some ''great match'') store_one) =
     \<lparr>fixtures = [row_one (IntV 2) (IntV 1) time_a], attended_matches = [mark_one], am_seq = 1\<rparr>"
  by (simp add: store_one_rows mark_attended_def insert_attended_def sqlite_int_def mark_one_def)

lemma resync_rows:
  "fst (insert_fixture time_b (example_fixture 1 13 ''finished'' 10 20 (PInt 3) (PInt 1))
          \<lparr>fixtures = [row_one (IntV 2) (IntV 1) time_a], attended_matches = [mark_one],
            am_seq = 1\<rparr>) =
     \<lparr>fixtures = [row_one (IntV 3) (IntV 1) time_b], attended_matches = [mark_one], am_seq = 1\<rparr>"
  by (simp add: insert_example adapt_def isoformat_example row_one_def)

subsection \<open>Counting the rows of the inner join\<close>

lemma length_filter_key:
  "distinct (map fixture_id fs) \<Longrightarrow>
   length (filter (\<lambda>f. k = fixture_id f \<and> P f) fs) =
     (if \<exists>f\<in>set fs. fixture_id f = k \<and> P f then 1 else 0)"
  by (induction fs) (auto simp: filter_empty_conv image_iff; metis)+

lemma filter_inner_join:
  "filter (\<lambda>row. P (snd row)) (inner_join s) =
     concat (map (\<lambda>am. map (\<lambda>f. (am, f))
                          (filter (\<lambda>f. am_fixture_id am = fixture_id f \<and> P f) (fixtures s)))
                 (attended_matches s))"
  by (simp add: inner_join_def filter_concat filter_map comp_def conj_commute)

lemma length_concat_keyed:
  assumes "\<And>am. length (g am) = (if Q am then 1 else 0)"
  shows "length (concat (map g ams)) = length (filter Q ams)"
  by (induction ams) (auto simp: assms)

lemma length_filter_inner_join:
  assumes "distinct (map fixture_id (fixtures s))"
  shows "length (filter (\<lambda>row. P (snd row)) (inner_join s)) =
         length (filter (\<lambda>am. \<exists>f\<in>set (fixtures s). fixture_id f = am_fixture_id am \<and> P f)
                   (attended_matches s))"
  unfolding filter_inner_join
  by (rule length_concat_keyed) (simp add: length_filter_key [OF assms])

lemma length_inner_join:
  assumes "distinct (map fixture_id (fixtures s))"
  shows "length (inner_join s) =
         length (filter (\<lambda>am. \<exists>f\<in>set (fixtures s). fixture_id f = am_fixture_id am)
                   (attended_matches s))"
  using length_filter_inner_join [OF assms, of "\<lambda>f. True"] by simp

lemma store_orphan_rows:
  "store_orphan = \<lparr>fixtures = [],
      attended_matches = [\<lparr>am_id = 1, am_fixture_id = 7, am_attended_date = time_a, am_notes = Null\<rparr>],
      am_seq = 1\<rparr>"
  by (simp add: store_orphan_def mark_attended_def insert_attended_def sqlite_int_def initialize_database_def)

lemma isoformat_day:
  "isoformat \<lparr>year = 2024, month = 4, day = d, hour = 19, minute = 0,
       second = 0, microsecond = 0, utcoffset = Some 0\<rparr> =
   ''2024-04-'' @ pad2 d @ '' 19:00:00+00:00''"
  by (simp add: isoformat_def pad2_def pad4_def pad6_def digit_char_def format_offset_def)

lemma insert_example_row:
  assumes "adapt hg = Inr x" "adapt ag = Inr y"
  shows "insert_fixture now (example_fixture fid d st home away hg ag) s =
     (s\<lparr>fixtures := filter (\<lambda>r. fixture_id r \<noteq> fid) (fixtures s) @
        [example_row fid (''2024-04-'' @ pad2 d @ '' 19:00:00+00:00'') st home away x y now]\<rparr>,
      Inr True)"
  using assms by (simp add: insert_example isoformat_day example_row_def)

lemma adapt_simps:
  "adapt PNone = Inr Null" "adapt (PInt i) = Inr (IntV i)"
  by (simp_all add: adapt_def)

lemma store_unscored_rows:
  "store_unscored =
     \<lparr>fixtures = [example_row 2 ''2024-04-20 19:00:00+00:00'' ''finished'' 30 10 Null Null time_a],
      attended_matches = [\<lparr>am_id = 1, am_fixture_id = 2, am_attended_date = time_b, am_notes = Null\<rparr>],
      am_seq = 1\<rparr>"
  by (simp add: store_unscored_def insert_example_row [OF adapt_simps(1) adapt_simps(1)]
        mark_attended_def insert_attended_def sqlite_int_def initialize_database_def pad2_def digit_char_def)

lemma store_self_rows:
  "store_self =
     \<lparr>fixtures = [example_row 4 ''2024-04-21 19:00:00+00:00'' ''finished'' 10 10 (IntV 3) (IntV 0) time_a],
      attended_matches = [\<lparr>am_id = 1, am_fixture_id = 4, am_attended_date = time_b, am_notes = Null\<rparr>],
      am_seq = 1\<rparr>"
  by (simp add: store_self_def insert_example_row [OF adapt_simps(2) adapt_simps(2)]
        mark_attended_def insert_attended_def sqlite_int_def initialize_database_def pad2_def digit_char_def)

lemma store_three_rows:
  "store_three =
     \<lparr>fixtures = [row_one (IntV 2) (IntV 1) time_a,
                  example_row 5 ''2024-04-14 19:00:00+00:00'' ''finished'' 50 10 (IntV 3) (IntV 0) time_a,
                  example_row 6 ''2024-04-15 19:00:00+00:00'' ''finished'' 10 60 (IntV 1) (IntV 1) time_a],
      attended_matches =
        [\<lparr>am_id = 1, am_fixture_id = 1, am_attended_date = time_b, am_notes = Null\<rparr>,
         \<lparr>am_id = 2, am_fixture_id = 5, am_attended_date = time_b, am_notes = Null\<rparr>,
         \<lparr>am_id = 3, am_fixture_id = 6, am_attended_date = time_b, am_notes = Null\<rparr>],
      am_seq = 3\<rparr>"
  by (simp add: store_three_def store_one_rows insert_example_row [OF adapt_simps(2) adapt_simps(2)]
        mark_attended_def insert_attended_def sqlite_int_def pad2_def digit_char_def row_one_def example_row_def)

lemmas stats_eval =
  get_statistics_def truthy_int_def Let_def inner_join_def finished_rows_def team_where_def
  sql_eq_def is_true_def sum_case_def sql_sum_def or0_def win_case_def draw_case_def
  loss_case_def sql_gt_def sql_lt_def stadium_visits_def

lemma stats_unscored:
  "get_statistics (Some 10) store_unscored =
     \<lparr>total_attended = 1, wins = Some 0, draws = Some 0, losses = Some 0,
      stadiums = [(TextV ''Maracana'', Null, 1)]\<rparr>"
  by (simp add: store_unscored_rows stats_eval example_row_def)

lemma stats_self:
  "get_statistics (Some 10) store_self =
     \<lparr>total_attended = 1, wins = Some 1, draws = Some 0, losses = Some 1,
      stadiums = [(TextV ''Maracana'', Null, 1)]\<rparr>"
  by (simp add: store_self_rows stats_eval example_row_def)

lemma stats_three:
  "get_statistics (Some 10) store_three =
     \<lparr>total_attended = 3, wins = Some 1, draws = Some 1, losses = Some 1,
      stadiums = [(TextV ''Maracana'', Null, 3)]\<rparr>"
  by (simp add: store_three_rows stats_eval example_row_def row_one_def)

subsection \<open>Wins, draws and losses\<close>

lemma or0_sum_case:
  "or0 (sum_case c rows) = int (length (filter (\<lambda>row. is_true (c (snd row))) rows))"
proof -
  have "sum_list (map (\<lambda>row. if is_true (c (snd row)) then 1 else 0) rows) =
        int (length (filter (\<lambda>row. is_true (c (snd row))) rows))"
    by (induction rows) auto
  then show ?thesis
    by (cases rows) (simp_all add: sum_case_def sql_sum_def or0_def)
qed

lemma finished_rows_iff:
  "(am, f) \<in> set (finished_rows t s) \<longleftrightarrow>
     am \<in> set (attended_matches s) \<and> f \<in> set (fixtures s) \<and> am_fixture_id am = fixture_id f \<and>
     status f = TextV ''finished'' \<and> plays t f"
  by (auto simp: finished_rows_def inner_join_iff is_true_sql_and is_true_team_where is_true_sql_eq)

lemma win_case_iff:
  assumes "plays t f" "scored f"
  shows "is_true (win_case t f) \<longleftrightarrow> val_less (goals_against t f) (goals_for t f)"
  using assms
  by (auto simp: win_case_def sql_gt_def is_true_sql_or is_true_sql_and is_true_sql_eq
        is_true_sql_lt goals_for_def goals_against_def plays_def scored_def)

lemma loss_case_iff:
  assumes "plays t f" "scored f"
  shows "is_true (loss_case t f) \<longleftrightarrow> val_less (goals_for t f) (goals_against t f)"
  using assms
  by (auto simp: loss_case_def is_true_sql_or is_true_sql_and is_true_sql_eq
        is_true_sql_lt goals_for_def goals_against_def plays_def scored_def)

lemma draw_case_iff:
  assumes "status f = TextV ''finished''" "scored f"
  shows "is_true (draw_case f) \<longleftrightarrow> goals_for t f = goals_against t f"
  using assms
  by (auto simp: draw_case_def is_true_sql_and is_true_sql_eq goals_for_def goals_against_def
        scored_def)

lemma exactly_one_case:
  assumes "plays t f" "status f = TextV ''finished''" "scored f"
  shows "(is_true (win_case t f) \<and> \<not> is_true (draw_case f) \<and> \<not> is_true (loss_case t f)) \<or>
         (\<not> is_true (win_case t f) \<and> is_true (draw_case f) \<and> \<not> is_true (loss_case t f)) \<or>
         (\<not> is_true (win_case t f) \<and> \<not> is_true (draw_case f) \<and> is_true (loss_case t f))"
  unfolding win_case_iff [OF assms(1,3)] loss_case_iff [OF assms(1,3)]
    draw_case_iff [OF assms(2,3), of t]
  using val_less_total [of "goals_for t f" "goals_against t f"]
    val_less_asym [of "goals_for t f" "goals_against t f"]
    val_less_irrefl [of "goals_for t f"]
  by auto

lemma length_three_filters:
  assumes "\<And>x. x \<in> set xs \<Longrightarrow>
     (A x \<and> \<not> B x \<and> \<not> C x) \<or> (\<not> A x \<and> B x \<and> \<not> C x) \<or> (\<not> A x \<and> \<not> B x \<and> C x)"
  shows "length (filter A xs) + length (filter B xs) + length (filter C xs) = length xs"
  using assms
proof (induction xs)
  case Nil
  then show ?case by simp
next
  case (Cons x xs)
  then have "length (filter A xs) + length (filter B xs) + length (filter C xs) = length xs"
    by simp
  moreover have "(A x \<and> \<not> B x \<and> \<not> C x) \<or> (\<not> A x \<and> B x \<and> \<not> C x) \<or> (\<not> A x \<and> \<not> B x \<and> C x)"
    using Cons.prems by simp
  ultimately show ?case by auto
qed

lemma distinct_snd_inner_join:
  assumes "key_constraints s"
  shows "distinct (map snd (inner_join s))"
proof -
  from assms have df: "distinct (fixtures s)"
    and da: "distinct (map am_fixture_id (attended_matches s))"
    by (auto simp: key_constraints_def distinct_map)
  have "distinct (map am_fixture_id ams) \<Longrightarrow>
        distinct (concat (map (\<lambda>am. filter (\<lambda>f. am_fixture_id am = fixture_id f) (fixtures s)) ams))"
    for ams
  proof (induction ams)
    case Nil
    then show ?case by simp
  next
    case (Cons am ams)
    then show ?case using df by (auto simp: image_iff)
  qed
  from this [OF da]
  have "distinct (concat (map (\<lambda>am. filter (\<lambda>f. am_fixture_id am = fixture_id f) (fixtures s))
                   (attended_matches s)))" .
  moreover have "map snd (inner_join s) =
      concat (map (\<lambda>am. filter (\<lambda>f. am_fixture_id am = fixture_id f) (fixtures s)) (attended_matches s))"
    by (simp add: inner_join_def map_concat comp_def)
  ultimately show ?thesis by simp
qed

lemma distinct_snd_finished_rows:
  assumes "key_constraints s"
  shows "distinct (map snd (finished_rows t s))"
  using distinct_snd_inner_join [OF assms]
  by (simp add: finished_rows_def distinct_map_filter)

lemma finished_row_props:
  assumes "row \<in> set (finished_rows t s)"
  shows "plays t (snd row)" and "status (snd row) = TextV ''finished''"
proof -
  obtain am f where "row = (am, f)" by (cases row)
  with assms show "plays t (snd row)" and "status (snd row) = TextV ''finished''"
    by (simp_all add: finished_rows_iff)
qed

lemma statistics_sums:
  assumes "t \<noteq> 0"
  shows "wins (get_statistics (Some t) s) = Some (or0 (sum_case (win_case t) (finished_rows t s)))"
    and "draws (get_statistics (Some t) s) = Some (or0 (sum_case draw_case (finished_rows t s)))"
    and "losses (get_statistics (Some t) s) = Some (or0 (sum_case (loss_case t) (finished_rows t s)))"
  using assms by (simp_all add: get_statistics_def truthy_int_def Let_def)

lemma statistics_counts:
  assumes "t \<noteq> 0"
  shows "wins (get_statistics (Some t) s) =
           Some (int (length (filter (\<lambda>row. is_true (win_case t (snd row))) (finished_rows t s))))"
    and "draws (get_statistics (Some t) s) =
           Some (int (length (filter (\<lambda>row. is_true (draw_case (snd row))) (finished_rows t s))))"
    and "losses (get_statistics (Some t) s) =
           Some (int (length (filter (\<lambda>row. is_true (loss_case t (snd row))) (finished_rows t s))))"
  unfolding statistics_sums [OF assms] or0_sum_case by (rule refl)+

subsection \<open>The result of parse\_fixture\<close>

lemma bind_res_Inr: "bind_res m f = Inr y \<longleftrightarrow> (\<exists>x. m = Inr x \<and> f x = Inr y)"
  by (cases m) (auto simp: bind_res_def)

lemma py_get_Inr: "py_get obj key dflt = Inr v \<longleftrightarrow> is_dict obj \<and> v = field_or obj key dflt"
  by (cases obj) (auto simp: py_get_def is_dict_def field_or_def)

lemma py_get2_Inr:
  "py_get2 obj k1 k2 dflt = Inr v \<longleftrightarrow>
     dict_at obj k1 \<and> v = field_or (field_or obj k1 (PDict [])) k2 dflt"
  by (auto simp: py_get2_def bind_res_Inr py_get_Inr dict_at_def)

lemma str_replace_Z_Inr: "str_replace_Z x = Inr s \<longleftrightarrow> (\<exists>d. x = PStr d \<and> s = replace_Z d)"
  by (cases x) (auto simp: str_replace_Z_def)

lemma dict_literal_Cons_Inr:
  "dict_literal ((k, m) # rest) = Inr out \<longleftrightarrow>
     (\<exists>v kvs. m = Inr v \<and> dict_literal rest = Inr kvs \<and> out = (k, v) # kvs)"
  by (cases m; cases "dict_literal rest") auto

lemma dict_literal_Nil_Inr: "dict_literal [] = Inr out \<longleftrightarrow> out = []"
  by auto

lemma parse_fixture_Inr:
  "parse_fixture raw = Inr out \<longleftrightarrow>
     sections_ok raw \<and>
     (\<exists>d dt. date_field raw = PStr d \<and> fromisoformat (replace_Z d) = Inr dt \<and>
        out = normalized raw dt)"
  unfolding parse_fixture_def bind_res_Inr py_get_Inr py_get2_Inr str_replace_Z_Inr
    dict_literal_Cons_Inr dict_literal_Nil_Inr sections_ok_def date_field_def normalized_def
    short_code_def Let_def dict_at_def
  by (simp add: ) blast

lemmas fromisoformat_eval =
  fromisoformat_def parse_datetime_def parse_isoformat_date_def parse_digits_def expect_def
  number_def digit_val_def is_digit_def parse_hh_mm_ss_ff_def parse_tz_def valid_datetime_def
  days_in_month_def is_leap_def replace_Z_def

lemma fromisoformat_minimal:
  "fromisoformat (replace_Z ''2024-04-13T19:00:00Z'') = Inr (example_kickoff 19 0)"
  by (simp add: fromisoformat_eval example_kickoff_def)

lemma fromisoformat_example:
  "fromisoformat (replace_Z ''2024-04-13T21:30:00+00:00'') = Inr (example_kickoff 21 30)"
  by (simp add: fromisoformat_eval example_kickoff_def)

lemma fromisoformat_malformed:
  "fromisoformat (replace_Z ''13/04/2024 19:00'') = Inl ValueError"
  by (simp add: fromisoformat_eval)

lemma status_normalized: "dict_get (normalized raw dt) ''status'' = PStr (match_status (short_code raw))"
  by (simp add: normalized_def dict_get_def Let_def)

subsection \<open>The key constraints are an invariant\<close>

lemma key_constraints_initial: "key_constraints initialize_database"
  by (simp add: key_constraints_def initialize_database_def)

lemma key_constraints_insert_fixture:
  assumes "key_constraints s"
  shows "key_constraints (fst (insert_fixture now fixture_data s))"
proof (cases rule: insert_fixture_cases [of now fixture_data s])
  case (failed e)
  with assms show ?thesis by simp
next
  case (written p fid)
  from assms have "distinct (map fixture_id (filter (\<lambda>r. fixture_id r \<noteq> fid) (fixtures s)))"
    by (simp add: key_constraints_def distinct_map_filter)
  with assms written show ?thesis
    by (auto simp: key_constraints_def fixture_id_new_row)
qed

lemma key_constraints_mark_attended:
  assumes "key_constraints s"
  shows "key_constraints (fst (mark_attended now fid notes_arg s))"
  using assms
  by (auto simp: key_constraints_def mark_attended_def insert_attended_def list_ex_iff)

lemma key_constraints_unmark_attended:
  assumes "key_constraints s"
  shows "key_constraints (fst (unmark_attended fid s))"
  using assms
  by (simp add: key_constraints_def unmark_attended_def distinct_map_filter)

lemma no_case_without_goals:
  assumes "home_goals f = Null \<or> away_goals f = Null"
  shows "\<not> is_true (win_case t f) \<and> \<not> is_true (draw_case f) \<and> \<not> is_true (loss_case t f)"
  using assms
  by (auto simp: win_case_def draw_case_def loss_case_def sql_gt_def is_true_sql_or
        is_true_sql_and is_true_sql_eq is_true_sql_lt)

section \<open>Marking a fixture as attended\<close>

text \<open>
  Claim C4, as stated, fails for a fixture id that SQLite cannot hold. The id \<open>2^63\<close> has
  no attendance mark in the empty store, and \<^verbatim>\<open>mark_attended\<close> does not return \<^verbatim>\<open>True\<close>
  for it: the driver raises \<^verbatim>\<open>OverflowError\<close>, which \<^verbatim>\<open>mark_attended\<close> does not absorb,
  and no mark is created.
\<close>

theorem mark_attended_overflow:
  "9223372036854775808 \<notin> set (map am_fixture_id (attended_matches initialize_database)) \<and>
   \<not> sqlite_int 9223372036854775808 \<and>
   mark_attended time_a 9223372036854775808 None initialize_database =
     (initialize_database, Inl OverflowError) \<and>
   snd (mark_attended time_a 9223372036854775808 None initialize_database) \<noteq> Inr True \<and>
   attended_matches (fst (mark_attended time_a 9223372036854775808 None initialize_database)) = []"
  by (simp add: mark_attended_def insert_attended_def sqlite_int_def initialize_database_def)

text \<open>
  Claim C4, amended. For every fixture id \<open>f\<close> in SQLite's integer range that has no
  attendance mark, \<^verbatim>\<open>mark_attended\<close> creates the mark and returns \<^verbatim>\<open>True\<close>. A second call
  with the same \<open>f\<close> (at any time, with any notes) returns \<^verbatim>\<open>False\<close> and not an error:
  the \<^verbatim>\<open>INSERT\<close> statement itself runs and fails with \<^verbatim>\<open>IntegrityError\<close>, which
  \<^verbatim>\<open>mark_attended\<close> absorbs, and the store is left as the first call made it, with
  exactly one attendance row for \<open>f\<close>.
\<close>

theorem mark_attended_twice:
  assumes "sqlite_int f" and "f \<notin> set (map am_fixture_id (attended_matches s))"
  shows "snd (mark_attended now f na s) = Inr True \<and>
         insert_attended tb f nb (fst (mark_attended now f na s)) = Inl IntegrityError \<and>
         mark_attended tb f nb (fst (mark_attended now f na s)) =
           (fst (mark_attended now f na s), Inr False) \<and>
         length (filter (\<lambda>am. am_fixture_id am = f)
                   (attended_matches (fst (mark_attended now f na s)))) = 1"
proof -
  from assms have none: "filter (\<lambda>am. am_fixture_id am = f) (attended_matches s) = []"
    by (auto simp: filter_empty_conv)
  from assms have free: "\<not> list_ex (\<lambda>a. am_fixture_id a = f) (attended_matches s)"
    by (auto simp: list_ex_iff)
  show ?thesis
    using none free assms(1)
    by (simp add: mark_attended_def insert_attended_def)
qed

theorem mark_attended_twice_witness:
  "sqlite_int 7 \<and>
   7 \<notin> set (map am_fixture_id (attended_matches initialize_database)) \<and>
   mark_attended (TextV ''2024-04-14 08:00:00'') 7 None initialize_database =
     (\<lparr>fixtures = [],
       attended_matches = [\<lparr>am_id = 1, am_fixture_id = 7,
                            am_attended_date = TextV ''2024-04-14 08:00:00'', am_notes = Null\<rparr>],
       am_seq = 1\<rparr>, Inr True) \<and>
   snd (mark_attended (TextV ''2024-04-15 09:00:00'') 7 (Some ''again'')
          (fst (mark_attended (TextV ''2024-04-14 08:00:00'') 7 None initialize_database))) = Inr False"
proof -
  have r: "sqlite_int 7"
    by (simp add: sqlite_int_def)
  have h: "7 \<notin> set (map am_fixture_id (attended_matches initialize_database))"
    by (simp add: initialize_database_def)
  have e: "mark_attended (TextV ''2024-04-14 08:00:00'') 7 None initialize_database =
     (\<lparr>fixtures = [],
       attended_matches = [\<lparr>am_id = 1, am_fixture_id = 7,
                            am_attended_date = TextV ''2024-04-14 08:00:00'', am_notes = Null\<rparr>],
       am_seq = 1\<rparr>, Inr True)"
    by (simp add: mark_attended_def insert_attended_def sqlite_int_def initialize_database_def)
  show ?thesis
    using r h e mark_attended_twice [OF r h, where now = "TextV ''2024-04-14 08:00:00''" and na = None
        and tb = "TextV ''2024-04-15 09:00:00''" and nb = "Some ''again''"]
    by simp
qed

section \<open>Synchronizing with an unknown competition\<close>

text \<open>
  Claim C6. For every team id and season (and whatever the provider would answer),
  \<^verbatim>\<open>sync_team_fixtures\<close> with a competition key that is not in \<^verbatim>\<open>COMPETITIONS\<close> returns
  \<^verbatim>\<open>(0, 0)\<close> and leaves the store as it was: the body raises \<^verbatim>\<open>ValueError\<close> before it
  calls the provider or writes anything.
\<close>

theorem sync_unknown_competition:
  assumes "competition \<notin> set (map fst COMPETITIONS)"
  shows "sync_body get_team_fixtures clock team_id competition season_arg s = (s, Inl ValueError) \<and>
         sync_team_fixtures get_team_fixtures clock team_id competition season_arg s = (s, (0, 0))"
proof -
  from assms have "map_of COMPETITIONS competition = None"
    by (simp add: map_of_eq_None_iff)
  then show ?thesis
    by (simp add: sync_team_fixtures_def sync_body_def)
qed

theorem sync_unknown_competition_witness:
  "''premier_league'' \<notin> set (map fst COMPETITIONS) \<and>
   sync_team_fixtures (\<lambda>t l y. Inr [PDict []]) (\<lambda>i. TextV ''2024-04-14 08:00:00'') 127
     ''premier_league'' 2024 initialize_database = (initialize_database, (0, 0))"
proof -
  have h: "''premier_league'' \<notin> set (map fst COMPETITIONS)"
    by (simp add: COMPETITIONS_def)
  show ?thesis
    using h sync_unknown_competition [OF h] by simp
qed

section \<open>Upserting a fixture keeps the attendance marks\<close>

text \<open>
  Claim C9. For every fixture record and every store, \<^verbatim>\<open>insert_fixture\<close> leaves the table
  \<^verbatim>\<open>attended_matches\<close> as it was, whether the statement succeeds or fails. Every mark
  whose fixture had a row before the call still joins a fixture row after it, so
  \<^verbatim>\<open>get_fixtures(attended_only=True)\<close> still returns that fixture, with the mark's own
  date and notes.
\<close>

theorem insert_fixture_keeps_attendance:
  "attended_matches (fst (insert_fixture now fixture_data s)) = attended_matches s \<and>
   (\<forall>am\<in>set (attended_matches s). \<forall>f\<in>set (fixtures s).
      fixture_id f = am_fixture_id am \<longrightarrow>
      (\<exists>v\<in>set (get_fixtures None None True (fst (insert_fixture now fixture_data s))).
         fixture_id (fixture v) = am_fixture_id am \<and> attended v = 1 \<and>
         attended_date v = am_attended_date am \<and> view_notes v = am_notes am))"
proof (intro conjI ballI impI)
  show "attended_matches (fst (insert_fixture now fixture_data s)) = attended_matches s"
    by (simp add: insert_fixture_frame)
next
  fix am f
  assume am: "am \<in> set (attended_matches s)" and f: "f \<in> set (fixtures s)"
    and eq: "fixture_id f = am_fixture_id am"
  let ?s = "fst (insert_fixture now fixture_data s)"
  from insert_fixture_keeps_ids [OF f] obtain g
    where g: "g \<in> set (fixtures ?s)" "fixture_id g = fixture_id f"
    by blast
  from am have am': "am \<in> set (attended_matches ?s)"
    by (simp add: insert_fixture_frame)
  with g eq have "(g, Some am) \<in> set (left_join ?s)"
    by (simp add: left_join_Some)
  moreover have "is_true (fixtures_where None None True (g, Some am))"
    by (simp add: is_true_fixtures_where truthy_int_def truthy_str_def)
  ultimately have "view_of (g, Some am) \<in> set (get_fixtures None None True ?s)"
    by (auto simp: get_fixtures_set)
  moreover have "fixture_id (fixture (view_of (g, Some am))) = am_fixture_id am \<and>
      attended (view_of (g, Some am)) = 1 \<and>
      attended_date (view_of (g, Some am)) = am_attended_date am \<and>
      view_notes (view_of (g, Some am)) = am_notes am"
    using g eq by (simp add: view_of_def)
  ultimately show "\<exists>v\<in>set (get_fixtures None None True ?s).
         fixture_id (fixture v) = am_fixture_id am \<and> attended v = 1 \<and>
         attended_date v = am_attended_date am \<and> view_notes v = am_notes am"
    by blast
qed

theorem insert_fixture_keeps_attendance_witness:
  "attended_matches (fst (mark_attended time_b 1 (Some ''great match'') store_one)) = [mark_one] \<and>
   attended_matches
     (fst (insert_fixture time_b (example_fixture 1 13 ''finished'' 10 20 (PInt 3) (PInt 1))
             (fst (mark_attended time_b 1 (Some ''great match'') store_one)))) = [mark_one] \<and>
   get_fixtures None None True
     (fst (insert_fixture time_b (example_fixture 1 13 ''finished'' 10 20 (PInt 3) (PInt 1))
             (fst (mark_attended time_b 1 (Some ''great match'') store_one)))) =
     [\<lparr>fixture = row_one (IntV 3) (IntV 1) time_b, attended = 1, attended_date = time_b,
       view_notes = TextV ''great match''\<rparr>]"
proof -
  have q: "get_fixtures None None True
     \<lparr>fixtures = [row_one (IntV 3) (IntV 1) time_b], attended_matches = [mark_one], am_seq = 1\<rparr> =
     [\<lparr>fixture = row_one (IntV 3) (IntV 1) time_b, attended = 1, attended_date = time_b,
       view_notes = TextV ''great match''\<rparr>]"
    by (simp add: get_fixtures_def left_join_def join_rows_def marks_of_def
        fixtures_where_def truthy_int_def truthy_str_def is_true_def order_by_date_desc_def
        view_of_def row_one_def mark_one_def)
  show ?thesis
    using insert_fixture_keeps_attendance
      [of time_b "example_fixture 1 13 ''finished'' 10 20 (PInt 3) (PInt 1)"
          "fst (mark_attended time_b 1 (Some ''great match'') store_one)"]
    by (simp add: store_marked_rows resync_rows q)
qed

section \<open>Upserting an existing fixture\<close>

text \<open>
  Claim C1 says that upserting a fixture whose \<open>fixture_id\<close> is in the store overwrites
  the row, refreshes \<open>updated_at\<close> and leaves the row's \<open>created_at\<close> unchanged. The code
  does not keep \<open>created_at\<close>: fixture 1 is stored at \<open>time_a\<close> and synced again at
  \<open>time_b\<close> with a new score; the call returns \<^verbatim>\<open>True\<close>, the store holds one row for
  fixture 1 with the new score, and that row's \<open>created_at\<close> is \<open>time_b\<close>, not
  \<open>time_a\<close>.
\<close>

theorem insert_fixture_resets_created_at:
  "fixtures store_one = [row_one (IntV 2) (IntV 1) time_a] \<and>
   insert_fixture time_b (example_fixture 1 13 ''finished'' 10 20 (PInt 3) (PInt 1)) store_one =
     (\<lparr>fixtures = [row_one (IntV 3) (IntV 1) time_b], attended_matches = [], am_seq = 0\<rparr>,
      Inr True) \<and>
   created_at (row_one (IntV 2) (IntV 1) time_a) = TextV ''2024-04-01 10:00:00'' \<and>
   created_at (row_one (IntV 3) (IntV 1) time_b) = TextV ''2024-04-14 08:00:00''"
  by (simp add: store_one_rows insert_example adapt_def isoformat_example row_one_def
        time_a_def time_b_def)

section \<open>A team id of zero\<close>

text \<open>
  Claim C10. \<^verbatim>\<open>get_fixtures\<close> and \<^verbatim>\<open>get_statistics\<close> treat the team id 0 exactly like an
  omitted one: the results are equal for every store and all other filters, no home or
  away restriction is applied (without other filters every fixture is returned), and the
  statistics have no \<^verbatim>\<open>wins\<close>, \<^verbatim>\<open>draws\<close> or \<^verbatim>\<open>losses\<close> entry.
\<close>

theorem team_id_zero_is_omitted:
  "get_fixtures (Some 0) status_filter attended_only s =
     get_fixtures None status_filter attended_only s \<and>
   fixture ` set (get_fixtures (Some 0) None False s) = set (fixtures s) \<and>
   get_statistics (Some 0) s = get_statistics None s \<and>
   wins (get_statistics (Some 0) s) = None \<and>
   draws (get_statistics (Some 0) s) = None \<and>
   losses (get_statistics (Some 0) s) = None"
proof -
  have a: "get_fixtures (Some 0) status_filter attended_only s =
           get_fixtures None status_filter attended_only s"
    by (simp add: get_fixtures_def fixtures_where_def truthy_int_def)
  have b: "fixture ` set (get_fixtures (Some 0) None False s) = set (fixtures s)"
    by (simp add: get_fixtures_complete truthy_int_def truthy_str_def)
  have c: "get_statistics (Some 0) s = get_statistics None s"
    by (simp add: get_statistics_def truthy_int_def)
  have d: "wins (get_statistics (Some 0) s) = None \<and> draws (get_statistics (Some 0) s) = None \<and>
           losses (get_statistics (Some 0) s) = None"
    by (simp add: get_statistics_def truthy_int_def Let_def)
  from a b c d show ?thesis by blast
qed

section \<open>Querying fixtures\<close>

text \<open>
  Claim C7, as stated, fails for filter values that Python takes as false. With the team
  id 0 given, \<^verbatim>\<open>get_fixtures\<close> returns a fixture of teams 10 and 20; with the status \<^verbatim>\<open>''\<close>
  given, it returns a fixture whose status is \<^verbatim>\<open>finished\<close>.
\<close>

theorem get_fixtures_falsy_filters:
  "map (\<lambda>v. (home_team_id (fixture v), away_team_id (fixture v)))
     (get_fixtures (Some 0) None False store_one) = [(IntV 10, IntV 20)] \<and>
   map (\<lambda>v. status (fixture v)) (get_fixtures None (Some '''') False store_one) =
     [TextV ''finished'']"
  by (simp add: get_fixtures_one_zero row_one_def)

text \<open>
  Claim C7, amended. For every combination of the filters and every store, the result
  of \<^verbatim>\<open>get_fixtures\<close> is in descending order of \<open>date\<close>; every row is a fixture of the
  store joined with its attendance mark (\<open>attended = 1\<close> and the mark's date and notes)
  or, without a mark, with \<open>attended = 0\<close> and \<open>NULL\<close>s; with a team id other than 0,
  every returned fixture has that team as home or away side; with a status other than
  the empty string, every returned fixture has exactly that status; with
  \<^verbatim>\<open>attended_only\<close>, every returned fixture carries a mark. The filters compose
  conjunctively and an omitted filter (or 0, or the empty string) restricts nothing:
  the fixtures returned are exactly the fixtures of the store that satisfy every given
  filter. Under the key constraints each of them is returned once.
\<close>

theorem get_fixtures_filters:
  "sorted_wrt (\<lambda>a b. date_desc (fixture a) (fixture b))
     (get_fixtures team_id status_filter attended_only s) \<and>
   (\<forall>v\<in>set (get_fixtures team_id status_filter attended_only s).
      fixture v \<in> set (fixtures s) \<and>
      (if has_mark s (fixture v)
       then attended v = 1 \<and>
            (\<exists>am\<in>set (attended_matches s). am_fixture_id am = fixture_id (fixture v) \<and>
               attended_date v = am_attended_date am \<and> view_notes v = am_notes am)
       else attended v = 0 \<and> attended_date v = Null \<and> view_notes v = Null) \<and>
      (team_id = Some t \<and> t \<noteq> 0 \<longrightarrow> plays t (fixture v)) \<and>
      (status_filter = Some st \<and> st \<noteq> [] \<longrightarrow> status (fixture v) = TextV st) \<and>
      (attended_only \<longrightarrow> attended v = 1 \<and> has_mark s (fixture v))) \<and>
   fixture ` set (get_fixtures team_id status_filter attended_only s) =
     {f \<in> set (fixtures s).
        (\<forall>u. team_id = Some u \<and> u \<noteq> 0 \<longrightarrow> plays u f) \<and>
        (\<forall>w. status_filter = Some w \<and> w \<noteq> [] \<longrightarrow> status f = TextV w) \<and>
        (attended_only \<longrightarrow> has_mark s f)} \<and>
   (key_constraints s \<longrightarrow>
      distinct (map (\<lambda>v. fixture_id (fixture v))
                 (get_fixtures team_id status_filter attended_only s)))"
proof (intro conjI ballI)
  show "sorted_wrt (\<lambda>a b. date_desc (fixture a) (fixture b))
     (get_fixtures team_id status_filter attended_only s)"
    by (rule get_fixtures_sorted)
next
  fix v assume v: "v \<in> set (get_fixtures team_id status_filter attended_only s)"
  from get_fixtures_joined [OF v]
  show "fixture v \<in> set (fixtures s)" by simp
  from get_fixtures_joined [OF v]
  show "if has_mark s (fixture v)
       then attended v = 1 \<and>
            (\<exists>am\<in>set (attended_matches s). am_fixture_id am = fixture_id (fixture v) \<and>
               attended_date v = am_attended_date am \<and> view_notes v = am_notes am)
       else attended v = 0 \<and> attended_date v = Null \<and> view_notes v = Null"
    by simp
  from get_fixtures_conds [OF v]
  show "team_id = Some t \<and> t \<noteq> 0 \<longrightarrow> plays t (fixture v)"
    by (auto simp: truthy_int_def)
  from get_fixtures_conds [OF v]
  show "status_filter = Some st \<and> st \<noteq> [] \<longrightarrow> status (fixture v) = TextV st"
    by (auto simp: truthy_str_def)
  from get_fixtures_conds [OF v]
  show "attended_only \<longrightarrow> attended v = 1 \<and> has_mark s (fixture v)"
    by auto
next
  have ti: "(case truthy_int team_id of None \<Rightarrow> True | Some t \<Rightarrow> plays t f) \<longleftrightarrow>
            (\<forall>u. team_id = Some u \<and> u \<noteq> 0 \<longrightarrow> plays u f)" for f
    by (auto simp: truthy_int_def split: option.splits)
  have ts: "(case truthy_str status_filter of None \<Rightarrow> True | Some st \<Rightarrow> status f = TextV st) \<longleftrightarrow>
            (\<forall>w. status_filter = Some w \<and> w \<noteq> [] \<longrightarrow> status f = TextV w)" for f
    by (auto simp: truthy_str_def split: option.splits)
  show "fixture ` set (get_fixtures team_id status_filter attended_only s) =
     {f \<in> set (fixtures s).
        (\<forall>u. team_id = Some u \<and> u \<noteq> 0 \<longrightarrow> plays u f) \<and>
        (\<forall>w. status_filter = Some w \<and> w \<noteq> [] \<longrightarrow> status f = TextV w) \<and>
        (attended_only \<longrightarrow> has_mark s f)}"
    unfolding get_fixtures_complete ti ts by auto
next
  show "key_constraints s \<longrightarrow>
      distinct (map (\<lambda>v. fixture_id (fixture v))
                 (get_fixtures team_id status_filter attended_only s))"
    by (simp add: get_fixtures_distinct)
qed

theorem get_fixtures_filters_witness:
  "key_constraints store_two \<and>
   get_fixtures (Some 10) (Some ''finished'') True store_two =
     [\<lparr>fixture = row_one (IntV 2) (IntV 1) time_a, attended = 1, attended_date = time_b,
       view_notes = TextV ''great match''\<rparr>] \<and>
   plays 10 (row_one (IntV 2) (IntV 1) time_a) \<and>
   status (row_one (IntV 2) (IntV 1) time_a) = TextV ''finished'' \<and>
   has_mark store_two (row_one (IntV 2) (IntV 1) time_a) \<and>
   map (\<lambda>v. (fixture_id (fixture v), date (fixture v), attended v))
     (get_fixtures None None False store_two) =
     [(3, TextV ''2024-04-27 19:00:00+00:00'', 0), (1, TextV ''2024-04-13 19:00:00+00:00'', 1)]"
proof -
  have k: "key_constraints store_two"
    by (simp add: key_constraints_def store_two_rows row_one_def row_three_def mark_one_def)
  show ?thesis
    using k get_fixtures_filters [of "Some 10" "Some ''finished''" True store_two 10 "''finished''"]
    by (simp add: get_fixtures_two_filtered get_fixtures_two_all)
       (simp add: row_one_def row_three_def plays_def has_mark_def store_two_rows mark_one_def)
qed

section \<open>The number of attended fixtures\<close>

text \<open>
  Claim C5, as stated, fails: a mark whose fixture has no row is not counted (the store
  with the single mark for fixture 7 has \<open>total_attended = 0\<close>), and the team id 0 is
  given but counts the marks of all fixtures (one mark, on a fixture of teams 10 and
  20, where team 0 plays in no fixture).
\<close>

theorem total_attended_skips_orphan_marks:
  "length (attended_matches store_orphan) = 1 \<and>
   total_attended (get_statistics None store_orphan) = 0 \<and>
   length (filter (\<lambda>am. \<exists>f\<in>set (fixtures store_two). fixture_id f = am_fixture_id am \<and> plays 0 f)
             (attended_matches store_two)) = 0 \<and>
   total_attended (get_statistics (Some 0) store_two) = 1"
  by (simp add: store_orphan_rows store_two_rows get_statistics_def truthy_int_def Let_def
        inner_join_def plays_def row_one_def row_three_def mark_one_def)

text \<open>
  Claim C5, amended. In every store whose fixture ids are unique (the primary key),
  \<open>total_attended\<close> is the number of attendance marks whose fixture has a row in
  \<^verbatim>\<open>fixtures\<close>; the team id 0 counts like an omitted one; and with a team id other than
  0 it is the number of attendance marks on fixtures with a row in which that team plays
  home or away.
\<close>

theorem total_attended_counts_joined_marks:
  assumes "distinct (map fixture_id (fixtures s))"
  shows "total_attended (get_statistics None s) =
           int (length (filter (\<lambda>am. \<exists>f\<in>set (fixtures s). fixture_id f = am_fixture_id am)
                          (attended_matches s))) \<and>
         total_attended (get_statistics (Some 0) s) = total_attended (get_statistics None s) \<and>
         (t \<noteq> 0 \<longrightarrow>
            total_attended (get_statistics (Some t) s) =
              int (length (filter (\<lambda>am. \<exists>f\<in>set (fixtures s).
                                     fixture_id f = am_fixture_id am \<and> plays t f)
                             (attended_matches s))))"
proof -
  have a: "total_attended (get_statistics None s) = int (length (inner_join s))"
    by (simp add: get_statistics_def truthy_int_def Let_def)
  have b: "total_attended (get_statistics (Some 0) s) = total_attended (get_statistics None s)"
    by (simp add: get_statistics_def truthy_int_def Let_def)
  have c: "total_attended (get_statistics (Some t) s) =
             int (length (filter (\<lambda>row. plays t (snd row)) (inner_join s)))" if "t \<noteq> 0"
    using that by (simp add: get_statistics_def truthy_int_def Let_def is_true_team_where)
  show ?thesis
    using a b c by (simp add: length_inner_join [OF assms] length_filter_inner_join [OF assms])
qed

theorem total_attended_counts_joined_marks_witness:
  "distinct (map fixture_id (fixtures store_two)) \<and>
   total_attended (get_statistics None store_two) = 1 \<and>
   total_attended (get_statistics (Some 10) store_two) = 1 \<and>
   total_attended (get_statistics (Some 40) store_two) = 0 \<and>
   length (filter (\<lambda>am. \<exists>f\<in>set (fixtures store_two). fixture_id f = am_fixture_id am \<and> plays 40 f)
             (attended_matches store_two)) = 0"
proof -
  have d: "distinct (map fixture_id (fixtures store_two))"
    by (simp add: store_two_rows row_one_def row_three_def)
  show ?thesis
    using d total_attended_counts_joined_marks [OF d, of 10]
      total_attended_counts_joined_marks [OF d, of 40]
    by (simp add: store_two_rows plays_def row_one_def row_three_def mark_one_def)
qed

section \<open>Wins, draws and losses\<close>

text \<open>
  Claim C2, as stated, fails. The attended finished fixture 2 of team 10 has no goals
  recorded and is counted in none of wins, draws and losses; the attended finished
  fixture 4 has team 10 on both sides and is counted as a win and as a loss; and for the
  team id 0 no wins, draws or losses are computed at all.
\<close>

theorem wins_draws_losses_not_exhaustive:
  "length (finished_rows 10 store_unscored) = 1 \<and>
   wins (get_statistics (Some 10) store_unscored) = Some 0 \<and>
   draws (get_statistics (Some 10) store_unscored) = Some 0 \<and>
   losses (get_statistics (Some 10) store_unscored) = Some 0 \<and>
   length (finished_rows 10 store_self) = 1 \<and>
   wins (get_statistics (Some 10) store_self) = Some 1 \<and>
   losses (get_statistics (Some 10) store_self) = Some 1 \<and>
   wins (get_statistics (Some 0) store_three) = None"
proof -
  have "length (finished_rows 10 store_unscored) = 1"
    by (simp add: store_unscored_rows stats_eval example_row_def)
  moreover have "length (finished_rows 10 store_self) = 1"
    by (simp add: store_self_rows stats_eval example_row_def)
  moreover have "wins (get_statistics (Some 0) store_three) = None"
    by (simp add: get_statistics_def truthy_int_def Let_def)
  ultimately show ?thesis
    by (simp add: stats_unscored stats_self)
qed

text \<open>
  Claim C2, amended. For every team id \<open>t\<close> other than 0, \<^verbatim>\<open>get_statistics\<close> counts wins,
  draws and losses over the rows \<open>finished_rows t s\<close>: the pairs of an attendance mark and
  its fixture whose status is \<^verbatim>\<open>finished\<close> and in which \<open>t\<close> plays home or away (under the
  key constraints every such fixture occurs once). A fixture of these with both goals
  recorded and two different sides is a win when \<open>t\<close> scored strictly more than it
  conceded, a draw when the two scores are equal, and a loss otherwise; when all of them
  are such, wins, draws and losses add up to their number. A fixture of these with a
  goal value missing is counted in none of the three.
\<close>

theorem wins_draws_losses:
  assumes "t \<noteq> 0"
  shows "wins (get_statistics (Some t) s) =
           Some (int (length (filter (\<lambda>row. is_true (win_case t (snd row))) (finished_rows t s)))) \<and>
         draws (get_statistics (Some t) s) =
           Some (int (length (filter (\<lambda>row. is_true (draw_case (snd row))) (finished_rows t s)))) \<and>
         losses (get_statistics (Some t) s) =
           Some (int (length (filter (\<lambda>row. is_true (loss_case t (snd row))) (finished_rows t s)))) \<and>
         (\<forall>am f. (am, f) \<in> set (finished_rows t s) \<longleftrightarrow>
            am \<in> set (attended_matches s) \<and> f \<in> set (fixtures s) \<and>
            am_fixture_id am = fixture_id f \<and> status f = TextV ''finished'' \<and> plays t f) \<and>
         (key_constraints s \<longrightarrow> distinct (map snd (finished_rows t s))) \<and>
         (\<forall>row\<in>set (finished_rows t s). scored (snd row) \<longrightarrow>
            (is_true (win_case t (snd row)) \<longleftrightarrow>
               val_less (goals_against t (snd row)) (goals_for t (snd row))) \<and>
            (is_true (draw_case (snd row)) \<longleftrightarrow>
               goals_for t (snd row) = goals_against t (snd row)) \<and>
            (is_true (loss_case t (snd row)) \<longleftrightarrow>
               \<not> is_true (win_case t (snd row)) \<and> \<not> is_true (draw_case (snd row)))) \<and>
         (\<forall>row\<in>set (finished_rows t s).
            home_goals (snd row) = Null \<or> away_goals (snd row) = Null \<longrightarrow>
            \<not> is_true (win_case t (snd row)) \<and> \<not> is_true (draw_case (snd row)) \<and>
            \<not> is_true (loss_case t (snd row))) \<and>
         ((\<forall>row\<in>set (finished_rows t s). scored (snd row)) \<longrightarrow>
            length (filter (\<lambda>row. is_true (win_case t (snd row))) (finished_rows t s)) +
            length (filter (\<lambda>row. is_true (draw_case (snd row))) (finished_rows t s)) +
            length (filter (\<lambda>row. is_true (loss_case t (snd row))) (finished_rows t s)) =
            length (finished_rows t s))"
proof (intro conjI allI ballI impI)
  show "wins (get_statistics (Some t) s) =
           Some (int (length (filter (\<lambda>row. is_true (win_case t (snd row))) (finished_rows t s))))"
    by (rule statistics_counts(1) [OF assms])
  show "draws (get_statistics (Some t) s) =
           Some (int (length (filter (\<lambda>row. is_true (draw_case (snd row))) (finished_rows t s))))"
    by (rule statistics_counts(2) [OF assms])
  show "losses (get_statistics (Some t) s) =
           Some (int (length (filter (\<lambda>row. is_true (loss_case t (snd row))) (finished_rows t s))))"
    by (rule statistics_counts(3) [OF assms])
next
  fix am f
  show "(am, f) \<in> set (finished_rows t s) \<longleftrightarrow>
            am \<in> set (attended_matches s) \<and> f \<in> set (fixtures s) \<and>
            am_fixture_id am = fixture_id f \<and> status f = TextV ''finished'' \<and> plays t f"
    by (rule finished_rows_iff)
next
  assume "key_constraints s"
  then show "distinct (map snd (finished_rows t s))"
    by (rule distinct_snd_finished_rows)
next
  fix row assume row: "row \<in> set (finished_rows t s)" and sc: "scored (snd row)"
  note p = finished_row_props(1) [OF row] and st = finished_row_props(2) [OF row]
  show "is_true (win_case t (snd row)) \<longleftrightarrow>
          val_less (goals_against t (snd row)) (goals_for t (snd row))"
    by (rule win_case_iff [OF p sc])
  show "is_true (draw_case (snd row)) \<longleftrightarrow> goals_for t (snd row) = goals_against t (snd row)"
    by (rule draw_case_iff [OF st sc])
  show "is_true (loss_case t (snd row)) \<longleftrightarrow>
          \<not> is_true (win_case t (snd row)) \<and> \<not> is_true (draw_case (snd row))"
    using exactly_one_case [OF p st sc] by blast
next
  fix row assume "row \<in> set (finished_rows t s)"
    and "home_goals (snd row) = Null \<or> away_goals (snd row) = Null"
  from no_case_without_goals [OF this(2), of t]
  show "\<not> is_true (win_case t (snd row))" and "\<not> is_true (draw_case (snd row))"
    and "\<not> is_true (loss_case t (snd row))"
    by simp_all
next
  assume all: "\<forall>row\<in>set (finished_rows t s). scored (snd row)"
  show "length (filter (\<lambda>row. is_true (win_case t (snd row))) (finished_rows t s)) +
        length (filter (\<lambda>row. is_true (draw_case (snd row))) (finished_rows t s)) +
        length (filter (\<lambda>row. is_true (loss_case t (snd row))) (finished_rows t s)) =
        length (finished_rows t s)"
  proof (rule length_three_filters)
    fix row assume row: "row \<in> set (finished_rows t s)"
    with all have sc: "scored (snd row)" by simp
    note p = finished_row_props(1) [OF row] and st = finished_row_props(2) [OF row]
    show "(is_true (win_case t (snd row)) \<and> \<not> is_true (draw_case (snd row)) \<and>
           \<not> is_true (loss_case t (snd row))) \<or>
          (\<not> is_true (win_case t (snd row)) \<and> is_true (draw_case (snd row)) \<and>
           \<not> is_true (loss_case t (snd row))) \<or>
          (\<not> is_true (win_case t (snd row)) \<and> \<not> is_true (draw_case (snd row)) \<and>
           is_true (loss_case t (snd row)))"
      by (rule exactly_one_case [OF p st sc])
  qed
qed

theorem wins_draws_losses_witness:
  "(10::int) \<noteq> 0 \<and> key_constraints store_three \<and>
   list_all (\<lambda>row. scored (snd row)) (finished_rows 10 store_three) \<and>
   length (finished_rows 10 store_three) = 3 \<and>
   get_statistics (Some 10) store_three =
     \<lparr>total_attended = 3, wins = Some 1, draws = Some 1, losses = Some 1,
      stadiums = [(TextV ''Maracana'', Null, 3)]\<rparr>"
proof -
  have t: "(10::int) \<noteq> 0" by simp
  have k: "key_constraints store_three"
    by (simp add: key_constraints_def store_three_rows example_row_def row_one_def)
  have f: "finished_rows 10 store_three =
     [(\<lparr>am_id = 1, am_fixture_id = 1, am_attended_date = time_b, am_notes = Null\<rparr>,
       row_one (IntV 2) (IntV 1) time_a),
      (\<lparr>am_id = 2, am_fixture_id = 5, am_attended_date = time_b, am_notes = Null\<rparr>,
       example_row 5 ''2024-04-14 19:00:00+00:00'' ''finished'' 50 10 (IntV 3) (IntV 0) time_a),
      (\<lparr>am_id = 3, am_fixture_id = 6, am_attended_date = time_b, am_notes = Null\<rparr>,
       example_row 6 ''2024-04-15 19:00:00+00:00'' ''finished'' 10 60 (IntV 1) (IntV 1) time_a)]"
    by (simp add: store_three_rows stats_eval example_row_def row_one_def)
  have sc: "list_all (\<lambda>row. scored (snd row)) (finished_rows 10 store_three)"
    by (simp add: f scored_def example_row_def row_one_def)
  have w: "wins (get_statistics (Some 10) store_three) =
           Some (int (length (filter (\<lambda>row. is_true (win_case 10 (snd row)))
                                (finished_rows 10 store_three))))"
    by (rule wins_draws_losses [OF t, of store_three, THEN conjunct1])
  have n: "length (finished_rows 10 store_three) = 3"
    by (simp add: f)
  from t k sc n w stats_three show ?thesis
    by blast
qed

section \<open>Normalizing a raw record\<close>

text \<open>
  Claim C3, as stated, fails: \<^verbatim>\<open>parse_fixture\<close> raises \<^verbatim>\<open>ValueError\<close> for a record whose
  date is not in ISO format, and \<^verbatim>\<open>AttributeError\<close> for a record whose \<^verbatim>\<open>goals\<close> section is
  present and \<^verbatim>\<open>null\<close>.
\<close>

theorem parse_fixture_raises:
  "parse_fixture (PDict [(''fixture'', PDict [(''id'', PInt 1),
                                               (''date'', PStr ''13/04/2024 19:00'')])]) =
     Inl ValueError \<and>
   parse_fixture (PDict [(''fixture'', PDict [(''id'', PInt 1),
                                               (''date'', PStr ''2024-04-13T19:00:00Z'')]),
                         (''goals'', PNone)]) =
     Inl AttributeError"
  by (simp add: parse_fixture_def py_get_def bind_res_def str_replace_Z_def fromisoformat_malformed
        fromisoformat_minimal py_get2_def)

text \<open>
  Claim C3, amended. \<^verbatim>\<open>parse_fixture\<close> is a function of the raw record alone. For every
  raw record with well-formed sections whose date field is a string that
  \<^verbatim>\<open>fromisoformat\<close> accepts after the replacement of \<^verbatim>\<open>Z\<close>, it returns the normalized
  record, in which every missing nested field is the empty string, \<^verbatim>\<open>N/A\<close> or \<^verbatim>\<open>None\<close>.
\<close>

theorem parse_fixture_returns:
  assumes "sections_ok raw" and "date_field raw = PStr d"
    and "fromisoformat (replace_Z d) = Inr dt"
  shows "parse_fixture raw = Inr (normalized raw dt)"
  using assms by (simp add: parse_fixture_Inr)

theorem parse_fixture_returns_witness:
  "sections_ok raw_minimal \<and>
   date_field raw_minimal = PStr ''2024-04-13T19:00:00Z'' \<and>
   fromisoformat (replace_Z ''2024-04-13T19:00:00Z'') = Inr (example_kickoff 19 0) \<and>
   parse_fixture raw_minimal =
     Inr [(''fixture_id'', PNone),
          (''date'', PDatetime (example_kickoff 19 0)),
          (''date_formatted'', PStr ''13/04/2024 19:00''),
          (''timestamp'', PNone),
          (''venue'', PStr ''N/A''),
          (''venue_city'', PStr ''N/A''),
          (''status'', PStr ''postponed''),
          (''status_long'', PStr ''''),
          (''league_id'', PNone),
          (''league_name'', PStr ''''),
          (''season'', PNone),
          (''round'', PStr ''''),
          (''home_team_id'', PNone),
          (''home_team_name'', PStr ''''),
          (''away_team_id'', PNone),
          (''away_team_name'', PStr ''''),
          (''home_goals'', PNone),
          (''away_goals'', PNone),
          (''halftime_home'', PNone),
          (''halftime_away'', PNone),
          (''fulltime_home'', PNone),
          (''fulltime_away'', PNone)]"
proof -
  have a: "sections_ok raw_minimal"
    by (simp add: sections_ok_def dict_at_def is_dict_def field_or_def raw_minimal_def)
  have b: "date_field raw_minimal = PStr ''2024-04-13T19:00:00Z''"
    by (simp add: date_field_def field_or_def raw_minimal_def)
  have n: "normalized raw_minimal (example_kickoff 19 0) =
         [(''fixture_id'', PNone),
          (''date'', PDatetime (example_kickoff 19 0)),
          (''date_formatted'', PStr ''13/04/2024 19:00''),
          (''timestamp'', PNone),
          (''venue'', PStr ''N/A''),
          (''venue_city'', PStr ''N/A''),
          (''status'', PStr ''postponed''),
          (''status_long'', PStr ''''),
          (''league_id'', PNone),
          (''league_name'', PStr ''''),
          (''season'', PNone),
          (''round'', PStr ''''),
          (''home_team_id'', PNone),
          (''home_team_name'', PStr ''''),
          (''away_team_id'', PNone),
          (''away_team_name'', PStr ''''),
          (''home_goals'', PNone),
          (''away_goals'', PNone),
          (''halftime_home'', PNone),
          (''halftime_away'', PNone),
          (''fulltime_home'', PNone),
          (''fulltime_away'', PNone)]"
    by (simp add: normalized_def field_or_def raw_minimal_def short_code_def match_status_def
          strftime_def pad2_def pad4_def digit_char_def example_kickoff_def)
  from a b fromisoformat_minimal parse_fixture_returns [OF a b fromisoformat_minimal] n
  show ?thesis by simp
qed

section \<open>The status mapping\<close>

text \<open>
  Claim C8, as stated, fails for the raw records on which \<^verbatim>\<open>parse_fixture\<close> raises and so
  maps the short status code to no status. The empty record, whose code is missing, and
  the record that holds the code \<^verbatim>\<open>FT\<close> and no date both end in \<^verbatim>\<open>ValueError\<close>: the
  date is parsed before the status is computed.
\<close>

theorem parse_fixture_no_status:
  "short_code (PDict []) = PStr '''' \<and>
   parse_fixture (PDict []) = Inl ValueError \<and>
   short_code (PDict [(''fixture'', PDict [(''status'', PDict [(''short'', PStr ''FT'')])])]) =
     PStr ''FT'' \<and>
   parse_fixture (PDict [(''fixture'', PDict [(''status'', PDict [(''short'', PStr ''FT'')])])]) =
     Inl ValueError"
  by (simp add: short_code_def field_or_def parse_fixture_def py_get_def bind_res_def
        str_replace_Z_def fromisoformat_eval)

text \<open>
  Claim C8, amended. For every raw record with well-formed sections whose date field is
  a string that \<^verbatim>\<open>fromisoformat\<close> accepts after the replacement of \<^verbatim>\<open>Z\<close> (by
  \<open>parse_fixture_Inr\<close> these are exactly the records on which \<^verbatim>\<open>parse_fixture\<close> returns),
  \<^verbatim>\<open>parse_fixture\<close> returns a record whose \<^verbatim>\<open>status\<close> is determined by the raw record's
  short status code: \<^verbatim>\<open>finished\<close> for \<^verbatim>\<open>FT\<close>, \<^verbatim>\<open>AET\<close>, \<^verbatim>\<open>PEN\<close>; \<^verbatim>\<open>in_progress\<close> for \<^verbatim>\<open>1H\<close>,
  \<^verbatim>\<open>2H\<close>, \<^verbatim>\<open>HT\<close>, \<^verbatim>\<open>ET\<close>, \<^verbatim>\<open>P\<close>, \<^verbatim>\<open>LIVE\<close>; \<^verbatim>\<open>scheduled\<close> for \<^verbatim>\<open>TBD\<close>, \<^verbatim>\<open>NS\<close>; and
  \<^verbatim>\<open>postponed\<close> for every other value, including the empty string that stands for a
  missing code.
\<close>

theorem parse_fixture_status:
  assumes "sections_ok raw" and "date_field raw = PStr d"
    and "fromisoformat (replace_Z d) = Inr dt"
  shows "(\<exists>out. parse_fixture raw = Inr out \<and>
            (short_code raw \<in> {PStr ''FT'', PStr ''AET'', PStr ''PEN''} \<longrightarrow>
               dict_get out ''status'' = PStr ''finished'') \<and>
            (short_code raw \<in> {PStr ''1H'', PStr ''2H'', PStr ''HT'', PStr ''ET'', PStr ''P'',
                                 PStr ''LIVE''} \<longrightarrow>
               dict_get out ''status'' = PStr ''in_progress'') \<and>
            (short_code raw \<in> {PStr ''TBD'', PStr ''NS''} \<longrightarrow>
               dict_get out ''status'' = PStr ''scheduled'') \<and>
            (short_code raw \<notin> {PStr ''FT'', PStr ''AET'', PStr ''PEN'', PStr ''1H'', PStr ''2H'',
                                 PStr ''HT'', PStr ''ET'', PStr ''P'', PStr ''LIVE'', PStr ''TBD'',
                                 PStr ''NS''} \<longrightarrow>
               dict_get out ''status'' = PStr ''postponed''))"
proof -
  from assms have ret: "parse_fixture raw = Inr (normalized raw dt)"
    by (simp add: parse_fixture_Inr)
  have st: "dict_get (normalized raw dt) ''status'' = PStr (match_status (short_code raw))"
    by (rule status_normalized)
  have "(short_code raw \<in> {PStr ''FT'', PStr ''AET'', PStr ''PEN''} \<longrightarrow>
           dict_get (normalized raw dt) ''status'' = PStr ''finished'') \<and>
        (short_code raw \<in> {PStr ''1H'', PStr ''2H'', PStr ''HT'', PStr ''ET'', PStr ''P'',
                             PStr ''LIVE''} \<longrightarrow>
           dict_get (normalized raw dt) ''status'' = PStr ''in_progress'') \<and>
        (short_code raw \<in> {PStr ''TBD'', PStr ''NS''} \<longrightarrow>
           dict_get (normalized raw dt) ''status'' = PStr ''scheduled'') \<and>
        (short_code raw \<notin> {PStr ''FT'', PStr ''AET'', PStr ''PEN'', PStr ''1H'', PStr ''2H'',
                             PStr ''HT'', PStr ''ET'', PStr ''P'', PStr ''LIVE'', PStr ''TBD'',
                             PStr ''NS''} \<longrightarrow>
           dict_get (normalized raw dt) ''status'' = PStr ''postponed'')"
    unfolding st by (auto simp: match_status_def)
  with ret show ?thesis
    by blast
qed

theorem parse_fixture_status_witness:
  "sections_ok raw_example \<and>
   date_field raw_example = PStr ''2024-04-13T21:30:00+00:00'' \<and>
   fromisoformat (replace_Z ''2024-04-13T21:30:00+00:00'') = Inr (example_kickoff 21 30) \<and>
   short_code raw_example = PStr ''FT'' \<and>
   (\<exists>out. parse_fixture raw_example = Inr out \<and> dict_get out ''status'' = PStr ''finished'') \<and>
   sections_ok raw_minimal \<and>
   date_field raw_minimal = PStr ''2024-04-13T19:00:00Z'' \<and>
   fromisoformat (replace_Z ''2024-04-13T19:00:00Z'') = Inr (example_kickoff 19 0) \<and>
   short_code raw_minimal = PStr '''' \<and>
   (\<exists>out. parse_fixture raw_minimal = Inr out \<and> dict_get out ''status'' = PStr ''postponed'')"
proof -
  have a: "sections_ok raw_example"
    by (simp add: sections_ok_def dict_at_def is_dict_def field_or_def raw_example_def)
  have b: "date_field raw_example = PStr ''2024-04-13T21:30:00+00:00''"
    by (simp add: date_field_def field_or_def raw_example_def)
  have c: "short_code raw_example = PStr ''FT''"
    by (simp add: short_code_def field_or_def raw_example_def)
  have a': "sections_ok raw_minimal"
    by (simp add: sections_ok_def dict_at_def is_dict_def field_or_def raw_minimal_def)
  have b': "date_field raw_minimal = PStr ''2024-04-13T19:00:00Z''"
    by (simp add: date_field_def field_or_def raw_minimal_def)
  have c': "short_code raw_minimal = PStr ''''"
    by (simp add: short_code_def field_or_def raw_minimal_def)
  from parse_fixture_status [OF a b fromisoformat_example]
  have x: "\<exists>out. parse_fixture raw_example = Inr out \<and> dict_get out ''status'' = PStr ''finished''"
    unfolding c by simp
  from parse_fixture_status [OF a' b' fromisoformat_minimal]
  have y: "\<exists>out. parse_fixture raw_minimal = Inr out \<and> dict_get out ''status'' = PStr ''postponed''"
    unfolding c' by simp
  from a b c a' b' c' x y fromisoformat_example fromisoformat_minimal
  show ?thesis by blast
qed

end
